theory Spec2Isabelle
  imports Complex_Main
begin

section \<open>Strings of the keyword tools\<close>

text \<open>
  A Python \<^verbatim>\<open>str\<close> is modelled as a \<^typ>\<open>string\<close>, each character read as a
  code point below 256. The three character tables below are Python's own tables on
  that range: \<^verbatim>\<open>str.isspace\<close> (which \<^verbatim>\<open>str.strip\<close> and the pattern
  \<^verbatim>\<open>\s\<close> both use), \<^verbatim>\<open>str.lower\<close>, and the word characters of
  \<^verbatim>\<open>\w\<close> and \<^verbatim>\<open>\b\<close> (alphanumeric or underscore).
\<close>

definition is_space :: "char \<Rightarrow> bool" where
  "is_space c =
     (let n = (of_char c :: nat)
      in (9 \<le> n \<and> n \<le> 13) \<or> (28 \<le> n \<and> n \<le> 32) \<or> n = 133 \<or> n = 160)"

definition strip :: "string \<Rightarrow> string" where
  "strip s = rev (dropWhile is_space (rev (dropWhile is_space s)))"

text \<open>\<^verbatim>\<open>re.sub(r"\s+", " ", s)\<close>: every maximal run of whitespace becomes one space.\<close>

function collapse_whitespace :: "string \<Rightarrow> string" where
  "collapse_whitespace [] = []"
| "collapse_whitespace (c # cs) =
     (if is_space c then CHR '' '' # collapse_whitespace (dropWhile is_space cs)
      else c # collapse_whitespace cs)"
  by pat_completeness auto
termination
  by (relation "measure length") (auto simp: less_Suc_eq_le length_dropWhile_le)

definition normalisiere_keyword :: "string \<Rightarrow> string" where
  "normalisiere_keyword keyword = collapse_whitespace (strip keyword)"

fun dedupe_loop :: "string list \<Rightarrow> string set \<Rightarrow> string list \<Rightarrow> string list" where
  "dedupe_loop [] seen out = out"
| "dedupe_loop (x # items) seen out =
     (if x \<notin> seen then dedupe_loop items (insert x seen) (out @ [x])
      else dedupe_loop items seen out)"

definition dedupe_preserve_order :: "string list \<Rightarrow> string list" where
  "dedupe_preserve_order items = dedupe_loop items {} []"

subsection \<open>The brand-safety denylist\<close>

definition lower_char :: "char \<Rightarrow> char" where
  "lower_char c =
     (let n = (of_char c :: nat)
      in if (65 \<le> n \<and> n \<le> 90) \<or> (192 \<le> n \<and> n \<le> 214) \<or> (216 \<le> n \<and> n \<le> 222)
         then char_of (n + 32) else c)"

definition lower :: "string \<Rightarrow> string" where
  "lower s = map lower_char s"

definition is_word_char :: "char \<Rightarrow> bool" where
  "is_word_char c =
     (let n = (of_char c :: nat)
      in (48 \<le> n \<and> n \<le> 57) \<or> (65 \<le> n \<and> n \<le> 90) \<or> n = 95 \<or> (97 \<le> n \<and> n \<le> 122)
         \<or> n = 170 \<or> n = 178 \<or> n = 179 \<or> n = 181 \<or> n = 185 \<or> n = 186
         \<or> (188 \<le> n \<and> n \<le> 190) \<or> (192 \<le> n \<and> n \<le> 214)
         \<or> (216 \<le> n \<and> n \<le> 246) \<or> (248 \<le> n \<and> n \<le> 255))"

text \<open>\<^verbatim>\<open>\b\<close> at position \<open>p\<close>: exactly one of the two neighbours is a word character.\<close>

definition word_boundary :: "string \<Rightarrow> nat \<Rightarrow> bool" where
  "word_boundary s p =
     ((0 < p \<and> p \<le> length s \<and> is_word_char (s ! (p - 1)))
        \<noteq> (p < length s \<and> is_word_char (s ! p)))"

text \<open>
  A pattern \<^verbatim>\<open>\b(w1|w2|...)\b\<close> is kept as the list of its literal alternatives.
\<close>

definition match_at :: "string list \<Rightarrow> string \<Rightarrow> nat \<Rightarrow> bool" where
  "match_at alts s i =
     (word_boundary s i \<and>
      list_ex (\<lambda>w. take (length w) (drop i s) = w \<and> word_boundary s (i + length w)) alts)"

definition re_search :: "string list \<Rightarrow> string \<Rightarrow> bool" where
  "re_search alts s = list_ex (match_at alts s) [0..<Suc (length s)]"

definition VERBOTENE_MUSTER :: "string list list" where
  "VERBOTENE_MUSTER =
     [[''kokain'', ''heroin'', ''meth'', ''crystal'', ''drogen kaufen''],
      [''waffe kaufen'', ''schusswaffe'', ''bombenbau''],
      [''kindesmissbrauch'']]"

fun brand_safety_loop :: "string list list \<Rightarrow> string \<Rightarrow> bool" where
  "brand_safety_loop [] k = True"
| "brand_safety_loop (pat # pats) k =
     (if re_search pat k then False else brand_safety_loop pats k)"

definition brand_safety_ok :: "string \<Rightarrow> bool" where
  "brand_safety_ok keyword = (let k = lower keyword in brand_safety_loop VERBOTENE_MUSTER k)"

text \<open>Lines 94 to 96 of the tool: normalise, filter, deduplicate.\<close>

definition cleaned_keywords :: "string list \<Rightarrow> string list" where
  "cleaned_keywords keywords =
     (let cleaned = map normalisiere_keyword keywords;
          cleaned = filter (\<lambda>k. k \<noteq> [] \<and> brand_safety_ok k) cleaned
      in dedupe_preserve_order cleaned)"

section \<open>The trends provider\<close>

text \<open>
  The tool talks to an external provider (pytrends on pandas). A call of it returns or
  raises. What it raises is an instance of \<^verbatim>\<open>Exception\<close>, kept as the text
  \<^verbatim>\<open>str(e)\<close> gives, or a \<^verbatim>\<open>BaseException\<close> outside that class
  (\<^verbatim>\<open>KeyboardInterrupt\<close>, \<^verbatim>\<open>SystemExit\<close>), kept by its name; a handler
  \<^verbatim>\<open>except Exception\<close> catches the first kind only. The provider object is stateful,
  so each call takes the provider's state and returns the next one. A frame is one that
  fits in memory: it has fewer than \<open>2 ^ 41\<close> rows.
\<close>

datatype py_exception = PyException (message: string)

datatype py_raise = Exception py_exception | BaseException string

text \<open>
  A column of the interest-over-time frame: numeric cells, some of them null, or a column
  on which taking the mean raises (\<open>NonNumeric\<close>).
\<close>

datatype column = Numeric "int option list" | NonNumeric

type_synonym iot_frame = "string \<rightharpoonup> column"

text \<open>
  The related-queries answer is a dictionary from keyword to a dictionary with the keys
  \<^verbatim>\<open>top\<close> and \<^verbatim>\<open>rising\<close>, each \<^verbatim>\<open>None\<close> or a frame. Of a frame only its
  \<^verbatim>\<open>query\<close> column matters: \<open>Queries\<close> holds its values in row order (strings or
  other objects), \<open>NoQueryColumn\<close> is a frame with rows and no such column. An entry
  \<open>Rq top_df rising_df\<close> holds the two; one that is no dictionary is \<open>NotADict\<close>.
\<close>

datatype pyval = Str string | NonStr

datatype qframe = Queries "pyval list" | NoQueryColumn

datatype rq_entry = NotADict | Rq "qframe option" "qframe option"

type_synonym related_dict = "string \<rightharpoonup> rq_entry"

text \<open>
  The last field is the double that \<^verbatim>\<open>float(series.mean())\<close> gives for a series whose
  sum leaves double precision, where it depends on the order in which the installed
  library adds; \<open>None\<close> stands for a double that is not finite.
\<close>

record 's provider =
  TrendReq :: "string \<Rightarrow> py_raise + 's"
  build_payload :: "'s \<Rightarrow> string list \<Rightarrow> string \<Rightarrow> string \<Rightarrow> py_raise + 's"
  interest_over_time :: "'s \<Rightarrow> py_raise + iot_frame \<times> 's"
  related_queries :: "'s \<Rightarrow> py_raise + related_dict \<times> 's"
  wide_mean :: "int list \<Rightarrow> rat option"

datatype provider_call =
    CallTrendReq string
  | CallBuildPayload "string list" string string
  | CallInterestOverTime
  | CallRelatedQueries

section \<open>The trends tool\<close>

record trend_record =
  keyword :: string
  trend_index :: "int option"
  suchvolumen :: "int option"
  verwandte_suchanfragen :: "string list"

record trend_result =
  trends_verfuegbar :: bool
  ergebnisse :: "trend_record list"
  hinweis :: string

subsection \<open>The trend index of one keyword\<close>

primrec dropna :: "int option list \<Rightarrow> int list" where
  "dropna [] = []"
| "dropna (c # cs) = (case c of None \<Rightarrow> dropna cs | Some v \<Rightarrow> v # dropna cs)"

text \<open>The mean of a series as a rational number, with no rounding.\<close>

definition exact_mean :: "int list \<Rightarrow> rat" where
  "exact_mean series = of_int (sum_list series) / of_int (int (length series))"

text \<open>
  \<^verbatim>\<open>float(series.mean())\<close>. pandas adds the cells in double precision and divides by
  their number \<open>n\<close>. When the magnitudes of the cells and \<open>n\<close> add up to less than
  \<open>2 ^ 52\<close>, the sum \<open>s\<close> and every partial sum, in any order, is an integer that a
  double holds exactly, and the quotient is the double nearest to \<open>s / n\<close>. That double
  rounds to an integer as \<open>s / n\<close> does: a mean half-way between two integers is itself
  a double, and any other mean is at least \<open>1 / (2 * n)\<close> away from every half-way
  point \<open>h\<close>, which is more than the rounding error of the division since
  \<open>n * \<bar>h\<bar> < 2 ^ 52\<close>. So within that range the exact mean stands for the double.
  A series none of whose cells exceeds 1024 in magnitude is within it, a frame having
  fewer than \<open>2 ^ 41\<close> rows. Beyond the range the double is the provider's.
\<close>

definition in_double_range :: "int list \<Rightarrow> bool" where
  "in_double_range series =
     ((\<Sum>v\<leftarrow>series. \<bar>v\<bar>) + int (length series) < 2 ^ 52
      \<or> list_all (\<lambda>v. \<bar>v\<bar> \<le> 1024) series)"

definition float_mean :: "(int list \<Rightarrow> rat option) \<Rightarrow> int list \<Rightarrow> rat option" where
  "float_mean wide series =
     (if in_double_range series then Some (exact_mean series) else wide series)"

text \<open>Python's \<^verbatim>\<open>round\<close> to an integer: to the nearest, a tie to the even one.\<close>

definition py_round :: "rat \<Rightarrow> int" where
  "py_round x =
     (let f = \<lfloor>x\<rfloor>; d = x - of_int f
      in if d < 1 / 2 then f
         else if 1 / 2 < d then f + 1
         else if even f then f else f + 1)"

text \<open>
  The body of the first inner \<^verbatim>\<open>try\<close>; \<open>wide\<close> is the provider's
  \<open>wide_mean\<close>. \<^verbatim>\<open>round\<close> raises on a double that is not finite.
\<close>

definition trend_index_try ::
  "(int list \<Rightarrow> rat option) \<Rightarrow> iot_frame \<Rightarrow> string \<Rightarrow> py_exception + int option" where
  "trend_index_try wide iot kw =
     (case iot kw of
        None \<Rightarrow> Inr None
      | Some NonNumeric \<Rightarrow> Inl (PyException ''TypeError'')
      | Some (Numeric cells) \<Rightarrow>
          (let series = dropna cells
           in if 0 < length series
              then (case float_mean wide series of
                      None \<Rightarrow> Inl (PyException ''OverflowError'')
                    | Some x \<Rightarrow> Inr (Some (py_round x)))
              else Inr None))"

subsection \<open>The related queries of one keyword\<close>

text \<open>
  \<^verbatim>\<open>head(n)\<close> of pandas is the slice \<^verbatim>\<open>[:n]\<close>: the first \<open>n\<close> rows, and for
  a negative \<open>n\<close> all rows but the last \<open>-n\<close>.
\<close>

definition head :: "int \<Rightarrow> 'a list \<Rightarrow> 'a list" where
  "head n xs = (if 0 \<le> n then take (nat n) xs else take (length xs - nat (- n)) xs)"

definition df_empty :: "qframe \<Rightarrow> bool" where
  "df_empty df = (case df of Queries qs \<Rightarrow> qs = [] | NoQueryColumn \<Rightarrow> False)"

definition query_column :: "qframe \<Rightarrow> py_exception + pyval list" where
  "query_column df =
     (case df of Queries qs \<Rightarrow> Inr qs | NoQueryColumn \<Rightarrow> Inl (PyException ''KeyError''))"

primrec only_str :: "pyval list \<Rightarrow> string list" where
  "only_str [] = []"
| "only_str (x # xs) = (case x of Str s \<Rightarrow> s # only_str xs | NonStr \<Rightarrow> only_str xs)"

definition add_rising :: "qframe option \<Rightarrow> int \<Rightarrow> py_exception + pyval list" where
  "add_rising rising_df max_verwandte =
     (case rising_df of
        None \<Rightarrow> Inr []
      | Some df \<Rightarrow>
          if \<not> df_empty df
          then (case query_column df of
                  Inl e \<Rightarrow> Inl e
                | Inr qs \<Rightarrow> Inr (head max_verwandte qs))
          else Inr [])"

definition add_top :: "qframe option \<Rightarrow> int \<Rightarrow> pyval list \<Rightarrow> py_exception + pyval list" where
  "add_top top_df max_verwandte verwandte =
     (case top_df of
        None \<Rightarrow> Inr verwandte
      | Some df \<Rightarrow>
          if \<not> df_empty df \<and> int (length verwandte) < max_verwandte
          then (let needed = max_verwandte - int (length verwandte)
                in case query_column df of
                     Inl e \<Rightarrow> Inl e
                   | Inr qs \<Rightarrow> Inr (verwandte @ head needed qs))
          else Inr verwandte)"

definition clean_verwandte :: "pyval list \<Rightarrow> string list" where
  "clean_verwandte verwandte =
     (let verwandte = map normalisiere_keyword (only_str verwandte);
          verwandte = filter (\<lambda>x. x \<noteq> [] \<and> brand_safety_ok x) verwandte
      in dedupe_preserve_order verwandte)"

text \<open>The body of the second inner \<^verbatim>\<open>try\<close>.\<close>

definition verwandte_try :: "related_dict \<Rightarrow> string \<Rightarrow> int \<Rightarrow> py_exception + string list" where
  "verwandte_try related kw max_verwandte =
     (case (case related kw of None \<Rightarrow> Rq None None | Some rq \<Rightarrow> rq) of
        NotADict \<Rightarrow> Inl (PyException ''AttributeError'')
      | Rq top_df rising_df \<Rightarrow>
          (case add_rising rising_df max_verwandte of
             Inl e \<Rightarrow> Inl e
           | Inr verwandte \<Rightarrow>
               (case add_top top_df max_verwandte verwandte of
                  Inl e \<Rightarrow> Inl e
                | Inr verwandte \<Rightarrow> Inr (clean_verwandte verwandte))))"

text \<open>
  One pass of the loop over a batch: both inner handlers, then the record. What the two
  bodies raise is an \<^verbatim>\<open>Exception\<close>, which the handlers catch.
\<close>

definition kw_record ::
  "(int list \<Rightarrow> rat option) \<Rightarrow> iot_frame \<Rightarrow> related_dict \<Rightarrow> int \<Rightarrow> string \<Rightarrow> trend_record" where
  "kw_record wide iot related max_verwandte kw =
     \<lparr>keyword = kw,
      trend_index = (case trend_index_try wide iot kw of Inl e \<Rightarrow> None | Inr t \<Rightarrow> t),
      suchvolumen = None,
      verwandte_suchanfragen =
        (case verwandte_try related kw max_verwandte of Inl e \<Rightarrow> [] | Inr v \<Rightarrow> v)\<rparr>"

subsection \<open>The batch loop and the tool\<close>

definition BATCH_SIZE :: nat where
  "BATCH_SIZE = 5"

text \<open>
  The loop over \<^verbatim>\<open>range(0, len(cleaned), BATCH_SIZE)\<close>, from index \<open>i\<close> on. It
  returns the records (\<open>erg\<close> is the list \<^verbatim>\<open>ergebnisse\<close> so far) or what a
  provider call raised, and the provider calls made.
\<close>

function batch_loop ::
  "'s provider \<Rightarrow> string list \<Rightarrow> string \<Rightarrow> string \<Rightarrow> int \<Rightarrow> nat \<Rightarrow> 's \<Rightarrow>
   trend_record list \<Rightarrow> provider_call list \<Rightarrow>
   (py_raise + trend_record list) \<times> provider_call list" where
  "batch_loop P cleaned zeitraum land max_verwandte i s erg calls =
     (if i < length cleaned then
        (let batch = take BATCH_SIZE (drop i cleaned);
             calls = calls @ [CallBuildPayload batch zeitraum land]
         in case build_payload P s batch zeitraum land of
              Inl e \<Rightarrow> (Inl e, calls)
            | Inr s \<Rightarrow>
                (let calls = calls @ [CallInterestOverTime]
                 in case interest_over_time P s of
                      Inl e \<Rightarrow> (Inl e, calls)
                    | Inr (iot, s) \<Rightarrow>
                        (let calls = calls @ [CallRelatedQueries]
                         in case related_queries P s of
                              Inl e \<Rightarrow> (Inl e, calls)
                            | Inr (related, s) \<Rightarrow>
                                batch_loop P cleaned zeitraum land max_verwandte
                                  (i + BATCH_SIZE) s
                                  (erg @ map (kw_record (wide_mean P) iot related max_verwandte)
                                            batch)
                                  calls)))
      else (Inr erg, calls))"
  by pat_completeness auto
termination
  by (relation "measure (\<lambda>(P, cleaned, zeitraum, land, max_verwandte, i, s, erg, calls).
        length cleaned - i)")
     (auto simp: BATCH_SIZE_def)

definition hinweis_keine :: string where
  "hinweis_keine =
     ''Keine g'' @ [CHR 0xFC] @ ''ltigen Keywords f'' @ [CHR 0xFC]
       @ ''r Trends-Abfrage vorhanden.''"

definition hinweis_proxy :: string where
  "hinweis_proxy =
     ''trend_index ist ein Proxy (0-100) aus Google Trends; ''
       @ ''echtes Suchvolumen ist hier nicht enthalten.''"

definition hinweis_fehler :: "py_exception \<Rightarrow> string" where
  "hinweis_fehler e =
     ''Trends-Abfrage nicht verf'' @ [CHR 0xFC] @ ''gbar (pytrends Fehler): '' @ message e"

text \<open>The body of the outer \<^verbatim>\<open>try\<close>; the two imports are part of \<open>TrendReq\<close>.\<close>

definition try_body ::
  "'s provider \<Rightarrow> string list \<Rightarrow> string \<Rightarrow> string \<Rightarrow> string \<Rightarrow> int \<Rightarrow>
   (py_raise + trend_result) \<times> provider_call list" where
  "try_body P cleaned land zeitraum sprache max_verwandte =
     (case TrendReq P sprache of
        Inl e \<Rightarrow> (Inl e, [CallTrendReq sprache])
      | Inr pytrends \<Rightarrow>
          (case batch_loop P cleaned zeitraum land max_verwandte 0 pytrends []
                  [CallTrendReq sprache] of
             (Inl e, calls) \<Rightarrow> (Inl e, calls)
           | (Inr erg, calls) \<Rightarrow>
               (Inr \<lparr>trends_verfuegbar = True, ergebnisse = erg,
                     hinweis = hinweis_proxy\<rparr>, calls)))"

definition fallback :: "string list \<Rightarrow> py_exception \<Rightarrow> trend_result" where
  "fallback cleaned e =
     \<lparr>trends_verfuegbar = False,
      ergebnisse =
        map (\<lambda>k. \<lparr>keyword = k, trend_index = None, suchvolumen = None,
                   verwandte_suchanfragen = []\<rparr>) cleaned,
      hinweis = hinweis_fehler e\<rparr>"

text \<open>
  The tool. Its value is what the caller gets, \<open>Inr\<close> a returned dictionary or
  \<open>Inl\<close> what reached the caller, and the provider calls it made. The handler
  \<^verbatim>\<open>except Exception as e\<close> turns an \<^verbatim>\<open>Exception\<close> into the fallback; anything
  else passes it.
\<close>

definition get_trend_daten_fuer_keywords ::
  "'s provider \<Rightarrow> string list \<Rightarrow> string \<Rightarrow> string \<Rightarrow> string \<Rightarrow> int \<Rightarrow>
   (py_raise + trend_result) \<times> provider_call list" where
  "get_trend_daten_fuer_keywords P keywords land zeitraum sprache max_verwandte =
     (let cleaned = cleaned_keywords keywords
      in if cleaned = [] then
           (Inr \<lparr>trends_verfuegbar = False, ergebnisse = [], hinweis = hinweis_keine\<rparr>, [])
         else
           (case try_body P cleaned land zeitraum sprache max_verwandte of
              (Inr r, calls) \<Rightarrow> (Inr r, calls)
            | (Inl (Exception e), calls) \<Rightarrow> (Inr (fallback cleaned e), calls)
            | (Inl (BaseException b), calls) \<Rightarrow> (Inl (BaseException b), calls)))"

section \<open>The form handler\<close>

text \<open>
  An age field of the form delivers a number, kept as the integer \<^verbatim>\<open>int\<close> makes
  of it, or \<^verbatim>\<open>None\<close>, on which \<^verbatim>\<open>int\<close> raises.
\<close>

datatype form_number = NumberValue int | NoNumber

definition py_int :: "form_number \<Rightarrow> py_exception + int" where
  "py_int v = (case v of NumberValue n \<Rightarrow> Inr n | NoNumber \<Rightarrow> Inl (PyException ''TypeError''))"

text \<open>The eight outputs; a data frame is the list of its rows, a row a list of cells.\<close>

record 'c outputs =
  status :: string
  keywords_df :: "(string \<times> string) list list"
  chart :: "'c option"
  seo_titel :: string
  meta :: string
  hook :: string
  vorspann :: string
  zusammenfassung :: string

definition make_error_outputs :: "string \<Rightarrow> 'c outputs" where
  "make_error_outputs msg =
     \<lparr>status = ''*'' @ msg @ ''*'', keywords_df = [], chart = None, seo_titel = [],
      meta = [], hook = [], vorspann = [], zusammenfassung = ''*'' @ msg @ ''*''\<rparr>"

definition fehler_thema :: string where
  "fehler_thema = ''Bitte ein Thema eingeben.''"

definition fehler_alterswerte :: string where
  "fehler_alterswerte = ''Alterswerte m'' @ [CHR 0xFC] @ ''ssen ganze Zahlen sein.''"

definition fehler_altersbereich :: string where
  "fehler_altersbereich =
     ''Bitte einen g'' @ [CHR 0xFC]
       @ ''ltigen Altersbereich angeben (min <= max, beide >= 0).''"

text \<open>
  One invocation of \<^verbatim>\<open>run_keyword_agent_async\<close>, the only external call of the
  handler: topic, article text, minimum and maximum age.
\<close>

type_synonym agent_call = "string \<times> string \<times> int \<times> int"

text \<open>
  The handler. The agent run is the parameter \<open>run\<close>, which returns the state keys or
  raises; what lines 118 to 147 make of the state keys (JSON, the table, the chart code)
  is the parameter \<open>present\<close>. The value is what the handler returns or raises, and
  the agent invocations it made.
\<close>

definition process_request_async ::
  "(agent_call \<Rightarrow> py_raise + 'r) \<Rightarrow> ('r \<Rightarrow> 'c outputs) \<Rightarrow>
   string \<Rightarrow> string option \<Rightarrow> form_number \<Rightarrow> form_number \<Rightarrow>
   (py_raise + 'c outputs) \<times> agent_call list" where
  "process_request_async run present thema artikeltext alter_min alter_max =
     (if strip thema = [] then (Inr (make_error_outputs fehler_thema), [])
      else
        (case py_int alter_min of
           Inl e \<Rightarrow> (Inr (make_error_outputs fehler_alterswerte), [])
         | Inr alter_min \<Rightarrow>
             (case py_int alter_max of
                Inl e \<Rightarrow> (Inr (make_error_outputs fehler_alterswerte), [])
              | Inr alter_max \<Rightarrow>
                  if alter_min < 0 \<or> alter_max < 0 \<or> alter_min > alter_max
                  then (Inr (make_error_outputs fehler_altersbereich), [])
                  else
                    (let call = (strip thema,
                                 (case artikeltext of None \<Rightarrow> [] | Some a \<Rightarrow> a),
                                 alter_min, alter_max)
                     in case run call of
                          Inl e \<Rightarrow> (Inl e, [call])
                        | Inr results \<Rightarrow> (Inr (present results), [call])))))"

section \<open>The provider in a run\<close>

text \<open>
  The frames a run of the batch loop receives from index \<open>i\<close> on, keyword by keyword:
  with every keyword of a batch the two frames returned for that batch. The list ends
  where a provider call raises.
\<close>

function received_frames ::
  "'s provider \<Rightarrow> string list \<Rightarrow> string \<Rightarrow> string \<Rightarrow> nat \<Rightarrow> 's \<Rightarrow>
   (string \<times> iot_frame \<times> related_dict) list" where
  "received_frames P cleaned zeitraum land i s =
     (if i < length cleaned then
        (let batch = take BATCH_SIZE (drop i cleaned)
         in case build_payload P s batch zeitraum land of
              Inl e \<Rightarrow> []
            | Inr s \<Rightarrow>
                (case interest_over_time P s of
                   Inl e \<Rightarrow> []
                 | Inr (iot, s) \<Rightarrow>
                     (case related_queries P s of
                        Inl e \<Rightarrow> []
                      | Inr (related, s) \<Rightarrow>
                          map (\<lambda>kw. (kw, iot, related)) batch
                            @ received_frames P cleaned zeitraum land (i + BATCH_SIZE) s)))
      else [])"
  by pat_completeness auto
termination
  by (relation "measure (\<lambda>(P, cleaned, zeitraum, land, i, s). length cleaned - i)")
     (auto simp: BATCH_SIZE_def)

text \<open>
  A provider none of whose calls raises a \<^verbatim>\<open>BaseException\<close> outside
  \<^verbatim>\<open>Exception\<close>.
\<close>

definition raises_only_Exception :: "'s provider \<Rightarrow> bool" where
  "raises_only_Exception P =
     ((\<forall>hl b. TrendReq P hl \<noteq> Inl (BaseException b)) \<and>
      (\<forall>s batch zeitraum land b.
         build_payload P s batch zeitraum land \<noteq> Inl (BaseException b)) \<and>
      (\<forall>s b. interest_over_time P s \<noteq> Inl (BaseException b)) \<and>
      (\<forall>s b. related_queries P s \<noteq> Inl (BaseException b)))"

text \<open>
  The provider answered a payload that holds the keyword with these two frames: some
  \<^verbatim>\<open>build_payload\<close> of a batch with the keyword returned, and the two queries that
  follow it returned \<open>iot\<close> and \<open>related\<close>.
\<close>

definition batch_answer ::
  "'s provider \<Rightarrow> string \<Rightarrow> string \<Rightarrow> string \<Rightarrow> iot_frame \<Rightarrow> related_dict \<Rightarrow> bool" where
  "batch_answer P zeitraum land kw iot related =
     (\<exists>s0 batch s1 s2 s3.
        kw \<in> set batch \<and> build_payload P s0 batch zeitraum land = Inr s1 \<and>
        interest_over_time P s1 = Inr (iot, s2) \<and> related_queries P s2 = Inr (related, s3))"

section \<open>What the specification says, in its own words\<close>

text \<open>Deduplication that keeps the first occurrence of every entry, in order.\<close>

primrec first_seen :: "'a list \<Rightarrow> 'a list" where
  "first_seen [] = []"
| "first_seen (x # xs) = x # filter (\<lambda>y. y \<noteq> x) (first_seen xs)"

text \<open>
  The surviving keywords: trimmed and collapsed, the empty and the denylisted ones
  dropped, deduplicated in first-seen order.
\<close>

definition surviving_keywords :: "string list \<Rightarrow> string list" where
  "surviving_keywords keywords =
     first_seen (filter (\<lambda>k. k \<noteq> [] \<and> brand_safety_ok k) (map normalisiere_keyword keywords))"

text \<open>The record of a keyword when trends are unavailable: nothing but the keyword.\<close>

definition unavailable_record :: "trend_record \<Rightarrow> bool" where
  "unavailable_record rec =
     (trend_index rec = None \<and> suchvolumen rec = None \<and> verwandte_suchanfragen rec = [])"

text \<open>An integer nearest to a rational: at most one half away.\<close>

definition nearest_integer :: "rat \<Rightarrow> int \<Rightarrow> bool" where
  "nearest_integer x n = (\<bar>x - of_int n\<bar> \<le> 1 / 2)"

text \<open>
  The trend index of a keyword as the specification words it: the mean of the non-null
  values of its column rounded to a nearest integer, null for an absent column or one
  with no non-null value.
\<close>

definition spec_trend_index :: "iot_frame \<Rightarrow> string \<Rightarrow> int option \<Rightarrow> bool" where
  "spec_trend_index iot kw t =
     (case iot kw of
        Some (Numeric cells) \<Rightarrow>
          (if dropna cells = [] then t = None
           else (case t of
                   None \<Rightarrow> False
                 | Some n \<Rightarrow> nearest_integer (exact_mean (dropna cells)) n))
      | Some NonNumeric \<Rightarrow> t = None
      | None \<Rightarrow> t = None)"

text \<open>
  The same for the series the tool can take the mean of without loss: beyond double range
  nothing is said of a column with non-null values.
\<close>

definition spec_trend_index_in_range :: "iot_frame \<Rightarrow> string \<Rightarrow> int option \<Rightarrow> bool" where
  "spec_trend_index_in_range iot kw t =
     (case iot kw of
        Some (Numeric cells) \<Rightarrow>
          (if dropna cells \<noteq> [] \<and> \<not> in_double_range (dropna cells) then True
           else spec_trend_index iot kw t)
      | Some NonNumeric \<Rightarrow> spec_trend_index iot kw t
      | None \<Rightarrow> spec_trend_index iot kw t)"

text \<open>
  A string free of surplus whitespace: every whitespace character in it is a single
  space with a non-whitespace character right after it.
\<close>

fun single_spaced :: "string \<Rightarrow> bool" where
  "single_spaced [] = True"
| "single_spaced (c # cs) =
     (if is_space c then c = CHR '' '' \<and> cs \<noteq> [] \<and> \<not> is_space (hd cs) \<and> single_spaced cs
      else single_spaced cs)"

section \<open>Sample providers and answers\<close>

definition sample_iot :: iot_frame where
  "sample_iot =
     map_of [(''seo'', Numeric [Some 10, None, Some 13]),
             (''yoga'', NonNumeric),
             (''laufen'', Numeric [None, None])]"

definition sample_related :: related_dict where
  "sample_related =
     map_of [(''seo'', Rq (Some (Queries [Str ''seo  tool'', Str ''kokain'', NonStr, Str ''x'']))
                          (Some (Queries [Str '' seo kurs '', Str ''seo kurs'']))),
             (''yoga'', NotADict),
             (''laufen'', Rq (Some NoQueryColumn) None)]"

text \<open>A provider that answers every batch with the same two frames.\<close>

definition steady_provider :: "iot_frame \<Rightarrow> related_dict \<Rightarrow> unit provider" where
  "steady_provider iot related =
     \<lparr>TrendReq = (\<lambda>hl. Inr ()),
      build_payload = (\<lambda>s batch timeframe geo. Inr s),
      interest_over_time = (\<lambda>s. Inr (iot, s)),
      related_queries = (\<lambda>s. Inr (related, s)),
      wide_mean = (\<lambda>series. None)\<rparr>"

text \<open>
  A provider that counts its payloads and refuses the second one, as a rate limit does.
\<close>

definition flaky_provider :: "nat provider" where
  "flaky_provider =
     \<lparr>TrendReq = (\<lambda>hl. Inr 0),
      build_payload =
        (\<lambda>s batch timeframe geo.
           if s = 1 then Inl (Exception (PyException ''429 Too Many Requests''))
           else Inr (Suc s)),
      interest_over_time = (\<lambda>s. Inr (sample_iot, s)),
      related_queries = (\<lambda>s. Inr (sample_related, s)),
      wide_mean = (\<lambda>series. None)\<rparr>"

text \<open>A provider that is down: every payload times out.\<close>

definition down_provider :: "unit provider" where
  "down_provider =
     \<lparr>TrendReq = (\<lambda>hl. Inr ()),
      build_payload = (\<lambda>s batch timeframe geo. Inl (Exception (PyException ''timed out''))),
      interest_over_time = (\<lambda>s. Inr (sample_iot, s)),
      related_queries = (\<lambda>s. Inr (sample_related, s)),
      wide_mean = (\<lambda>series. None)\<rparr>"

text \<open>A provider whose first payload is cut short by the user's interrupt.\<close>

definition interrupted_provider :: "unit provider" where
  "interrupted_provider =
     \<lparr>TrendReq = (\<lambda>hl. Inr ()),
      build_payload = (\<lambda>s batch timeframe geo. Inl (BaseException ''KeyboardInterrupt'')),
      interest_over_time = (\<lambda>s. Inr (sample_iot, s)),
      related_queries = (\<lambda>s. Inr (sample_related, s)),
      wide_mean = (\<lambda>series. None)\<rparr>"

text \<open>
  A provider with a cell beyond double precision, \<open>2 ^ 53 + 1\<close>. The double nearest to
  it is \<open>2 ^ 53\<close>, and that is what pandas returns as the mean of the one cell.
\<close>

definition wide_iot :: iot_frame where
  "wide_iot = map_of [(''seo'', Numeric [Some 9007199254740993])]"

definition pandas_wide_mean :: "int list \<Rightarrow> rat option" where
  "pandas_wide_mean series =
     (if series = [9007199254740993] then Some 9007199254740992 else None)"

definition wide_provider :: "unit provider" where
  "wide_provider =
     \<lparr>TrendReq = (\<lambda>hl. Inr ()),
      build_payload = (\<lambda>s batch timeframe geo. Inr s),
      interest_over_time = (\<lambda>s. Inr (wide_iot, s)),
      related_queries = (\<lambda>s. Inr (sample_related, s)),
      wide_mean = pandas_wide_mean\<rparr>"

text \<open>A provider whose series leaves the range of the index.\<close>

definition overshooting_iot :: iot_frame where
  "overshooting_iot = map_of [(''seo'', Numeric [Some 250])]"

definition sample_keywords :: "string list" where
  "sample_keywords =
     [''  seo '', ''yoga'', ''seo'', ''Kokain kaufen'', ''   '', ''laufen'', ''a'', ''b'', ''c'']"

definition sample_run :: "agent_call \<Rightarrow> py_raise + string" where
  "sample_run call = Inr (fst call)"

definition sample_present :: "string \<Rightarrow> unit outputs" where
  "sample_present results =
     \<lparr>status = ''*Fertig.*'', keywords_df = [], chart = None, seo_titel = results,
      meta = [], hook = [], vorspann = [], zusammenfassung = []\<rparr>"

section \<open>Normalisation and deduplication\<close>

lemma collapse_eq_Nil: "collapse_whitespace s = [] \<longleftrightarrow> s = []"
  by (cases s) auto

lemma hd_collapse: "s \<noteq> [] \<Longrightarrow> \<not> is_space (hd s) \<Longrightarrow> hd (collapse_whitespace s) = hd s"
  by (cases s) auto

lemma last_dropWhile: "dropWhile P xs \<noteq> [] \<Longrightarrow> last (dropWhile P xs) = last xs"
  by (induction xs) (auto split: if_splits)

lemma dropWhile_last_neq: "xs \<noteq> [] \<Longrightarrow> \<not> P (last xs) \<Longrightarrow> dropWhile P xs \<noteq> []"
  by (metis dropWhile_eq_Nil_conv last_in_set)

lemma single_spaced_collapse:
  "s = [] \<or> \<not> is_space (last s) \<Longrightarrow> single_spaced (collapse_whitespace s)"
proof (induction s rule: collapse_whitespace.induct)
  case 1
  then show ?case by simp
next
  case (2 c cs)
  show ?case
  proof (cases "is_space c")
    case True
    with "2.prems" have cs: "cs \<noteq> []" "\<not> is_space (last cs)" by (auto split: if_splits)
    then have d: "dropWhile is_space cs \<noteq> []" by (rule dropWhile_last_neq)
    then have l: "\<not> is_space (last (dropWhile is_space cs))" using cs by (simp add: last_dropWhile)
    have h: "\<not> is_space (hd (dropWhile is_space cs))" using d by (simp add: hd_dropWhile)
    have "single_spaced (collapse_whitespace (dropWhile is_space cs))"
      using "2.IH"(1)[OF True] l by simp
    with True d h show ?thesis by (simp add: collapse_eq_Nil hd_collapse)
  next
    case False
    with "2.prems" have "cs = [] \<or> \<not> is_space (last cs)" by (auto split: if_splits)
    with "2.IH"(2)[OF False] False show ?thesis by simp
  qed
qed

lemma collapse_single_spaced: "single_spaced s \<Longrightarrow> collapse_whitespace s = s"
proof (induction s rule: single_spaced.induct)
  case 1
  then show ?case by simp
next
  case (2 c cs)
  show ?case
  proof (cases "is_space c")
    case True
    with "2.prems" have "cs \<noteq> []" "\<not> is_space (hd cs)" "single_spaced cs" "c = CHR '' ''" by auto
    moreover then have "dropWhile is_space cs = cs" by (cases cs) auto
    ultimately show ?thesis using "2.IH"(1)[OF True] True by simp
  next
    case False
    with 2 show ?thesis by simp
  qed
qed

lemma single_spaced_last: "single_spaced s \<Longrightarrow> s \<noteq> [] \<Longrightarrow> \<not> is_space (last s)"
  by (induction s rule: single_spaced.induct) (auto split: if_splits)

lemma strip_id: "s = [] \<or> (\<not> is_space (hd s) \<and> \<not> is_space (last s)) \<Longrightarrow> strip s = s"
proof (cases s)
  case Nil
  then show ?thesis by (simp add: strip_def)
next
  case (Cons c cs)
  assume "s = [] \<or> (\<not> is_space (hd s) \<and> \<not> is_space (last s))"
  with Cons have a: "\<not> is_space c" "\<not> is_space (last s)" by auto
  then have "dropWhile is_space s = s" using Cons by simp
  moreover have "dropWhile is_space (rev s) = rev s"
  proof (cases "rev s")
    case Nil
    then show ?thesis by simp
  next
    case (Cons x xs)
    then have "x = last s" by (metis hd_rev list.sel(1))
    with a have "dropWhile is_space (x # xs) = x # xs" by simp
    with Cons show ?thesis by (simp only:)
  qed
  ultimately show ?thesis by (simp add: strip_def)
qed

lemma strip_ends: "strip s = [] \<or> (\<not> is_space (hd (strip s)) \<and> \<not> is_space (last (strip s)))"
proof (cases "strip s = []")
  case True
  then show ?thesis by simp
next
  case False
  let ?d = "dropWhile is_space s"
  let ?r = "dropWhile is_space (rev ?d)"
  from False have r: "?r \<noteq> []" by (simp add: strip_def)
  then have d: "?d \<noteq> []" by (metis dropWhile.simps(1) rev.simps(1))
  have "\<not> is_space (hd ?r)" using r by (simp add: hd_dropWhile)
  then have l: "\<not> is_space (last (strip s))" using r by (simp add: strip_def last_rev)
  have "last ?r = last (rev ?d)" using r by (rule last_dropWhile)
  then have "hd (strip s) = hd ?d" using r d by (simp add: strip_def hd_rev last_rev)
  moreover have "\<not> is_space (hd ?d)" using d by (simp add: hd_dropWhile)
  ultimately show ?thesis using l by simp
qed

lemma normalisiere_shape:
  "single_spaced (normalisiere_keyword k) \<and>
   (normalisiere_keyword k = [] \<or> \<not> is_space (hd (normalisiere_keyword k)))"
proof -
  from strip_ends[of k] have a: "strip k = [] \<or> \<not> is_space (last (strip k))" by auto
  have "single_spaced (collapse_whitespace (strip k))" by (rule single_spaced_collapse[OF a])
  moreover have "collapse_whitespace (strip k) = [] \<or> \<not> is_space (hd (collapse_whitespace (strip k)))"
    using strip_ends[of k] by (auto simp: collapse_eq_Nil hd_collapse)
  ultimately show ?thesis by (simp add: normalisiere_keyword_def)
qed

lemma normalisiere_fixed:
  assumes "single_spaced s" "s = [] \<or> \<not> is_space (hd s)"
  shows "normalisiere_keyword s = s"
proof -
  have "strip s = s" using assms single_spaced_last[of s] by (intro strip_id) auto
  then show ?thesis using assms by (simp add: normalisiere_keyword_def collapse_single_spaced)
qed

lemma normalisiere_idem: "normalisiere_keyword (normalisiere_keyword k) = normalisiere_keyword k"
  using normalisiere_shape[of k] by (intro normalisiere_fixed) auto

lemma dedupe_loop_first_seen:
  "dedupe_loop xs seen out = out @ filter (\<lambda>y. y \<notin> seen) (first_seen xs)"
proof (induction xs arbitrary: seen out)
  case Nil
  then show ?case by simp
next
  case (Cons x xs)
  show ?case
  proof (cases "x \<in> seen")
    case True
    then have "filter (\<lambda>y. y \<notin> seen) (filter (\<lambda>y. y \<noteq> x) (first_seen xs)) = filter (\<lambda>y. y \<notin> seen) (first_seen xs)"
      by (auto intro: filter_cong)
    with True Cons show ?thesis by simp
  next
    case False
    have "filter (\<lambda>y. y \<notin> insert x seen) (first_seen xs) = filter (\<lambda>y. y \<notin> seen) (filter (\<lambda>y. y \<noteq> x) (first_seen xs))"
      by (auto intro: filter_cong)
    with False Cons show ?thesis by simp
  qed
qed

lemma dedupe_first_seen: "dedupe_preserve_order xs = first_seen xs"
  by (simp add: dedupe_preserve_order_def dedupe_loop_first_seen)

lemma set_first_seen: "set (first_seen xs) = set xs"
  by (induction xs) auto

lemma distinct_first_seen: "distinct (first_seen xs)"
  by (induction xs) auto

lemma cleaned_surviving: "cleaned_keywords keywords = surviving_keywords keywords"
  by (simp add: cleaned_keywords_def surviving_keywords_def dedupe_first_seen)

section \<open>The batch loop\<close>

declare batch_loop.simps [simp del]

lemma batch_loop_done:
  "\<not> i < length cleaned \<Longrightarrow> batch_loop P cleaned z l m i s erg calls = (Inr erg, calls)"
  by (subst batch_loop.simps) simp

lemma batch_loop_step:
  assumes "i < length cleaned"
    and "build_payload P s (take BATCH_SIZE (drop i cleaned)) z l = Inr s1"
    and "interest_over_time P s1 = Inr (iot, s2)"
    and "related_queries P s2 = Inr (related, s3)"
  shows "batch_loop P cleaned z l m i s erg calls =
         batch_loop P cleaned z l m (i + BATCH_SIZE) s3
           (erg @ map (kw_record (wide_mean P) iot related m) (take BATCH_SIZE (drop i cleaned)))
           (calls @ [CallBuildPayload (take BATCH_SIZE (drop i cleaned)) z l,
                     CallInterestOverTime, CallRelatedQueries])"
  using assms by (subst batch_loop.simps) (simp add: Let_def)

lemma batch_loop_raise:
  assumes "i < length cleaned"
    and "build_payload P s (take BATCH_SIZE (drop i cleaned)) z l = Inl e
         \<or> (\<exists>s1. build_payload P s (take BATCH_SIZE (drop i cleaned)) z l = Inr s1 \<and>
               (interest_over_time P s1 = Inl e
                \<or> (\<exists>iot s2. interest_over_time P s1 = Inr (iot, s2) \<and> related_queries P s2 = Inl e)))"
  shows "fst (batch_loop P cleaned z l m i s erg calls) = Inl e"
  using assms by (subst batch_loop.simps) (auto simp: Let_def)

lemma keyword_kw_record [simp]: "keyword (kw_record wide iot related m kw) = kw"
  by (simp add: kw_record_def)

lemma batch_loop_Inr:
  "fst (batch_loop P cleaned z l m i s erg calls) = Inr out \<Longrightarrow>
   \<exists>rs. out = erg @ rs \<and> map keyword rs = drop i cleaned \<and>
     list_all (\<lambda>rec. \<exists>iot related. batch_answer P z l (keyword rec) iot related \<and>
                       rec = kw_record (wide_mean P) iot related m (keyword rec)) rs"
proof (induction P cleaned z l m i s erg calls rule: batch_loop.induct)
  case (1 P cleaned z l m i s erg calls)
  let ?batch = "take BATCH_SIZE (drop i cleaned)"
  let ?Q = "\<lambda>rec. \<exists>iot related. batch_answer P z l (keyword rec) iot related \<and>
                       rec = kw_record (wide_mean P) iot related m (keyword rec)"
  show ?case
  proof (cases "i < length cleaned")
    case False
    with "1.prems" have "out = erg" by (simp add: batch_loop_done)
    with False show ?thesis by simp
  next
    case True
    show ?thesis
    proof (cases "build_payload P s ?batch z l")
      case (Inl e)
      with True "1.prems" show ?thesis by (simp add: batch_loop_raise)
    next
      case bp: (Inr s1)
      show ?thesis
      proof (cases "interest_over_time P s1")
        case (Inl e)
        with True bp "1.prems" show ?thesis by (simp add: batch_loop_raise)
      next
        case (Inr a)
        then obtain iot s2 where io: "interest_over_time P s1 = Inr (iot, s2)" by (cases a) auto
        show ?thesis
        proof (cases "related_queries P s2")
          case (Inl e)
          with True bp io "1.prems" show ?thesis by (simp add: batch_loop_raise)
        next
          case (Inr b)
          then obtain related s3 where rq: "related_queries P s2 = Inr (related, s3)"
            by (cases b) auto
          let ?new = "map (kw_record (wide_mean P) iot related m) ?batch"
          from "1.prems" have "fst (batch_loop P cleaned z l m (i + BATCH_SIZE) s3
              (erg @ ?new) ((calls @ [CallBuildPayload ?batch z l]) @ [CallInterestOverTime]
                 @ [CallRelatedQueries])) = Inr out"
            by (simp add: batch_loop_step[OF True bp io rq])
          then have "fst (batch_loop P cleaned z l m (i + BATCH_SIZE) s3
              (erg @ ?new) (((calls @ [CallBuildPayload ?batch z l]) @ [CallInterestOverTime])
                 @ [CallRelatedQueries])) = Inr out" by simp
          from "1.IH"[OF True refl refl bp refl io refl refl rq refl this]
          obtain rs where rs: "out = (erg @ ?new) @ rs"
            "map keyword rs = drop (i + BATCH_SIZE) cleaned" "list_all ?Q rs" by blast
          have "map keyword ?new = ?batch" by (simp add: comp_def)
          then have k: "map keyword (?new @ rs) = drop i cleaned"
            using rs(2) by (simp add: add.commute[of i] flip: drop_drop)
          have "\<forall>kw \<in> set ?batch. batch_answer P z l kw iot related"
            using bp io rq unfolding batch_answer_def by blast
          then have "list_all ?Q ?new"
            by (auto simp: list_all_iff)
          with rs(3) have "list_all ?Q (?new @ rs)" by simp
          with rs(1) k show ?thesis by (intro exI[of _ "?new @ rs"]) simp
        qed
      qed
    qed
  qed
qed



lemma batch_loop_Inl:
  "fst (batch_loop P cleaned z l m i s erg calls) = Inl x \<Longrightarrow>
   (\<exists>s b. build_payload P s b z l = Inl x) \<or> (\<exists>s. interest_over_time P s = Inl x) \<or>
   (\<exists>s. related_queries P s = Inl x)"
proof (induction P cleaned z l m i s erg calls rule: batch_loop.induct)
  case (1 P cleaned z l m i s erg calls)
  let ?batch = "take BATCH_SIZE (drop i cleaned)"
  show ?case
  proof (cases "i < length cleaned")
    case False
    with "1.prems" show ?thesis by (simp add: batch_loop_done)
  next
    case True
    show ?thesis
    proof (cases "build_payload P s ?batch z l")
      case (Inl e)
      with True have "fst (batch_loop P cleaned z l m i s erg calls) = Inl e"
        by (simp add: batch_loop_raise)
      with "1.prems" Inl show ?thesis by auto
    next
      case bp: (Inr s1)
      show ?thesis
      proof (cases "interest_over_time P s1")
        case (Inl e)
        with True bp have "fst (batch_loop P cleaned z l m i s erg calls) = Inl e"
          by (simp add: batch_loop_raise)
        with "1.prems" Inl show ?thesis by auto
      next
        case (Inr a)
        then obtain iot s2 where io: "interest_over_time P s1 = Inr (iot, s2)" by (cases a) auto
        show ?thesis
        proof (cases "related_queries P s2")
          case (Inl e)
          with True bp io have "fst (batch_loop P cleaned z l m i s erg calls) = Inl e"
            by (simp add: batch_loop_raise)
          with "1.prems" Inl show ?thesis by auto
        next
          case (Inr b)
          then obtain related s3 where rq: "related_queries P s2 = Inr (related, s3)"
            by (cases b) auto
          from "1.prems" show ?thesis
            using "1.IH"[OF True refl refl bp refl io refl refl rq refl]
            by (simp add: batch_loop_step[OF True bp io rq])
        qed
      qed
    qed
  qed
qed

declare received_frames.simps [simp del]

lemma batch_loop_received:
  "fst (batch_loop P cleaned z l m i s erg calls) = Inr out \<Longrightarrow>
   out = erg @ map (\<lambda>(kw, iot, related). kw_record (wide_mean P) iot related m kw)
                 (received_frames P cleaned z l i s)"
proof (induction P cleaned z l m i s erg calls rule: batch_loop.induct)
  case (1 P cleaned z l m i s erg calls)
  let ?batch = "take BATCH_SIZE (drop i cleaned)"
  show ?case
  proof (cases "i < length cleaned")
    case False
    with "1.prems" show ?thesis
      by (subst received_frames.simps) (simp add: batch_loop_done)
  next
    case True
    show ?thesis
    proof (cases "build_payload P s ?batch z l")
      case (Inl e)
      with True "1.prems" show ?thesis by (simp add: batch_loop_raise)
    next
      case bp: (Inr s1)
      show ?thesis
      proof (cases "interest_over_time P s1")
        case (Inl e)
        with True bp "1.prems" show ?thesis by (simp add: batch_loop_raise)
      next
        case (Inr a)
        then obtain iot s2 where io: "interest_over_time P s1 = Inr (iot, s2)" by (cases a) auto
        show ?thesis
        proof (cases "related_queries P s2")
          case (Inl e)
          with True bp io "1.prems" show ?thesis by (simp add: batch_loop_raise)
        next
          case (Inr b)
          then obtain related s3 where rq: "related_queries P s2 = Inr (related, s3)"
            by (cases b) auto
          have f: "received_frames P cleaned z l i s =
                map (\<lambda>kw. (kw, iot, related)) ?batch
                  @ received_frames P cleaned z l (i + BATCH_SIZE) s3"
            using True bp io rq by (subst received_frames.simps) (simp add: Let_def)
          from "1.prems" show ?thesis
            using "1.IH"[OF True refl refl bp refl io refl refl rq refl]
            by (simp add: batch_loop_step[OF True bp io rq] f comp_def)
        qed
      qed
    qed
  qed
qed

section \<open>One record\<close>

lemma suchvolumen_kw_record [simp]: "suchvolumen (kw_record wide iot related m kw) = None"
  by (simp add: kw_record_def)

lemma length_first_seen: "length (first_seen xs) \<le> length xs"
  by (induction xs) (auto intro: le_trans[OF length_filter_le] simp: le_SucI)

lemma length_only_str: "length (only_str xs) \<le> length xs"
  by (induction xs) (auto split: pyval.splits)

lemma length_clean_verwandte: "length (clean_verwandte v) \<le> length v"
proof -
  have "length (clean_verwandte v) \<le> length (only_str v)"
    unfolding clean_verwandte_def Let_def dedupe_first_seen
    by (rule le_trans[OF length_first_seen]) (rule le_trans[OF length_filter_le], simp)
  with length_only_str[of v] show ?thesis by simp
qed

lemma length_head: "0 \<le> n \<Longrightarrow> int (length (head n xs)) \<le> n"
  by (simp add: head_def)

lemma add_rising_length:
  "0 \<le> m \<Longrightarrow> add_rising rising_df m = Inr v \<Longrightarrow> int (length v) \<le> m"
  using length_head[of m]
  by (auto simp: add_rising_def query_column_def split: option.splits if_splits qframe.splits sum.splits)

lemma add_top_length:
  "int (length v) \<le> m \<Longrightarrow> add_top top_df m v = Inr v' \<Longrightarrow> int (length v') \<le> m"
proof -
  assume a: "int (length v) \<le> m" "add_top top_df m v = Inr v'"
  have "int (length (v @ head (m - int (length v)) qs)) \<le> m" for qs :: "pyval list"
    using a(1) length_head[of "m - int (length v)" qs] by simp
  with a show ?thesis
    by (auto simp: add_top_def query_column_def Let_def
        split: option.splits if_splits qframe.splits sum.splits)
qed

lemma verwandte_try_length:
  assumes "0 \<le> m" "verwandte_try related kw m = Inr v"
  shows "int (length v) \<le> m"
proof -
  from assms(2) obtain top_df rising_df v1 v2 where
    r: "add_rising rising_df m = Inr v1" and t: "add_top top_df m v1 = Inr v2"
    and v: "v = clean_verwandte v2"
    by (auto simp: verwandte_try_def split: rq_entry.splits sum.splits)
  from add_top_length[OF add_rising_length[OF assms(1) r] t] have "int (length v2) \<le> m" .
  with length_clean_verwandte[of v2] v show ?thesis by simp
qed

lemma kw_record_length:
  "0 \<le> m \<Longrightarrow> int (length (verwandte_suchanfragen (kw_record wide iot related m kw))) \<le> m"
  by (auto simp: kw_record_def verwandte_try_length split: sum.splits)

lemma clean_verwandte_entries:
  "q \<in> set (clean_verwandte v) \<Longrightarrow> q \<noteq> [] \<and> brand_safety_ok q \<and> normalisiere_keyword q = q"
  by (auto simp: clean_verwandte_def dedupe_first_seen set_first_seen normalisiere_idem)

lemma kw_record_entries:
  "q \<in> set (verwandte_suchanfragen (kw_record wide iot related m kw)) \<Longrightarrow>
   q \<noteq> [] \<and> brand_safety_ok q \<and> normalisiere_keyword q = q"
  by (auto simp: kw_record_def verwandte_try_def dest: clean_verwandte_entries
      split: sum.splits rq_entry.splits)

lemma cleaned_entries:
  "k \<in> set (cleaned_keywords keywords) \<Longrightarrow>
   k \<noteq> [] \<and> brand_safety_ok k \<and> normalisiere_keyword k = k"
  by (auto simp: cleaned_keywords_def dedupe_first_seen set_first_seen normalisiere_idem)

lemma py_round_nearest: "nearest_integer x (py_round x)"
proof -
  define f where "f = \<lfloor>x\<rfloor>"
  have b: "of_int f \<le> x" "x < of_int f + 1" unfolding f_def by linarith+
  have "py_round x = (if x - of_int f < 1 / 2 then f
         else if 1 / 2 < x - of_int f then f + 1 else if even f then f else f + 1)"
    by (simp add: py_round_def Let_def f_def)
  with b show ?thesis
    by (auto simp: nearest_integer_def abs_if split: if_splits)
qed

lemma py_round_range:
  assumes "0 \<le> x" "x \<le> 100"
  shows "0 \<le> py_round x \<and> py_round x \<le> 100"
proof -
  define f where "f = \<lfloor>x\<rfloor>"
  have b: "of_int f \<le> x" unfolding f_def by linarith
  have f: "0 \<le> f" "f \<le> 100" using assms unfolding f_def by (simp_all add: floor_le_iff le_floor_iff)
  have r: "py_round x = (if x - of_int f < 1 / 2 then f
         else if 1 / 2 < x - of_int f then f + 1 else if even f then f else f + 1)"
    by (simp add: py_round_def Let_def f_def)
  show ?thesis
  proof (cases "f = 100")
    case True
    with b assms have "x - of_int f < 1 / 2" by simp
    with r True show ?thesis by simp
  next
    case False
    with f have "f + 1 \<le> 100" by simp
    with f r show ?thesis by (auto split: if_splits)
  qed
qed

lemma mean_range:
  assumes "series \<noteq> []" "\<forall>v \<in> set series. 0 \<le> v \<and> v \<le> 100"
  shows "0 \<le> exact_mean series \<and> exact_mean series \<le> 100"
proof -
  have "0 \<le> sum_list series \<and> sum_list series \<le> 100 * int (length series)"
    using assms(2) by (induction series) auto
  then have "0 \<le> (of_int (sum_list series) :: rat)"
    "(of_int (sum_list series) :: rat) \<le> 100 * of_int (int (length series))"
    by (simp, metis of_int_le_iff of_int_mult of_int_numeral)
  moreover have "0 < (of_int (int (length series)) :: rat)" using assms(1) by simp
  ultimately show ?thesis by (simp add: exact_mean_def divide_le_eq)
qed

lemma float_mean_in_range:
  "in_double_range series \<Longrightarrow> float_mean wide series = Some (exact_mean series)"
  by (simp add: float_mean_def)

lemma kw_record_trend_index:
  "trend_index (kw_record wide iot related m kw) =
     (case iot kw of
        Some (Numeric cells) \<Rightarrow>
          if dropna cells = [] then None
          else map_option py_round (float_mean wide (dropna cells))
      | Some NonNumeric \<Rightarrow> None
      | None \<Rightarrow> None)"
  by (auto simp: kw_record_def trend_index_try_def Let_def split: option.splits column.splits)

lemma kw_record_spec_trend_index:
  "spec_trend_index_in_range iot kw (trend_index (kw_record wide iot related m kw))"
  by (auto simp: spec_trend_index_in_range_def spec_trend_index_def kw_record_trend_index
      float_mean_in_range py_round_nearest split: option.splits column.splits)

lemma kw_record_rounded_mean:
  assumes "iot kw = Some (Numeric cells)" "dropna cells \<noteq> []" "in_double_range (dropna cells)"
  shows "trend_index (kw_record wide iot related m kw) = Some (py_round (exact_mean (dropna cells)))"
  using assms by (simp add: kw_record_trend_index float_mean_in_range)

section \<open>The tool as a whole\<close>

lemma try_body_cases:
  "(\<exists>x. fst (try_body P cleaned l z spr m) = Inl x \<and>
        (TrendReq P spr = Inl x \<or> (\<exists>s b. build_payload P s b z l = Inl x) \<or>
         (\<exists>s. interest_over_time P s = Inl x) \<or> (\<exists>s. related_queries P s = Inl x))) \<or>
   (\<exists>s erg. TrendReq P spr = Inr s \<and>
          fst (try_body P cleaned l z spr m)
             = Inr \<lparr>trends_verfuegbar = True, ergebnisse = erg, hinweis = hinweis_proxy\<rparr> \<and>
          map keyword erg = cleaned \<and>
          erg = map (\<lambda>(kw, iot, related). kw_record (wide_mean P) iot related m kw)
                  (received_frames P cleaned z l 0 s) \<and>
          list_all (\<lambda>rec. \<exists>iot related. batch_answer P z l (keyword rec) iot related \<and>
                            rec = kw_record (wide_mean P) iot related m (keyword rec)) erg)"
proof (cases "TrendReq P spr")
  case (Inl x)
  then show ?thesis by (simp add: try_body_def)
next
  case (Inr s)
  obtain res calls where b: "batch_loop P cleaned z l m 0 s [] [CallTrendReq spr] = (res, calls)"
    by (cases "batch_loop P cleaned z l m 0 s [] [CallTrendReq spr]")
  show ?thesis
  proof (cases res)
    case (Inl x)
    with b have "fst (batch_loop P cleaned z l m 0 s [] [CallTrendReq spr]) = Inl x" by simp
    from batch_loop_Inl[OF this] Inr b Inl show ?thesis by (simp add: try_body_def)
  next
    case r: (Inr erg)
    with b have e: "fst (batch_loop P cleaned z l m 0 s [] [CallTrendReq spr]) = Inr erg" by simp
    from batch_loop_Inr[OF e] have "map keyword erg = cleaned"
      "list_all (\<lambda>rec. \<exists>iot related. batch_answer P z l (keyword rec) iot related \<and>
                            rec = kw_record (wide_mean P) iot related m (keyword rec)) erg" by auto
    moreover from batch_loop_received[OF e]
    have "erg = map (\<lambda>(kw, iot, related). kw_record (wide_mean P) iot related m kw)
                  (received_frames P cleaned z l 0 s)" by simp
    ultimately show ?thesis using Inr b r by (simp add: try_body_def)
  qed
qed

lemma get_fst:
  "fst (get_trend_daten_fuer_keywords P keywords l z spr m) =
     (if cleaned_keywords keywords = []
      then Inr \<lparr>trends_verfuegbar = False, ergebnisse = [], hinweis = hinweis_keine\<rparr>
      else (case fst (try_body P (cleaned_keywords keywords) l z spr m) of
              Inr r \<Rightarrow> Inr r
            | Inl (Exception e) \<Rightarrow> Inr (fallback (cleaned_keywords keywords) e)
            | Inl (BaseException b) \<Rightarrow> Inl (BaseException b)))"
  by (auto simp: get_trend_daten_fuer_keywords_def Let_def
      split: prod.splits sum.splits py_raise.splits)

lemma fallback_records:
  "map keyword (ergebnisse (fallback cleaned e)) = cleaned \<and>
   list_all unavailable_record (ergebnisse (fallback cleaned e)) \<and>
   \<not> trends_verfuegbar (fallback cleaned e) \<and> hinweis (fallback cleaned e) = hinweis_fehler e"
  by (simp add: fallback_def comp_def list_all_iff unavailable_record_def)

lemma get_result_cases:
  "(\<exists>b. fst (get_trend_daten_fuer_keywords P keywords l z spr m) = Inl (BaseException b) \<and>
        \<not> raises_only_Exception P) \<or>
   (\<exists>r. fst (get_trend_daten_fuer_keywords P keywords l z spr m) = Inr r \<and>
        map keyword (ergebnisse r) = cleaned_keywords keywords \<and>
        ((\<not> trends_verfuegbar r \<and> list_all unavailable_record (ergebnisse r)) \<or>
         (trends_verfuegbar r \<and> cleaned_keywords keywords \<noteq> [] \<and> hinweis r = hinweis_proxy \<and>
          (\<exists>s. TrendReq P spr = Inr s \<and>
               ergebnisse r = map (\<lambda>(kw, iot, related). kw_record (wide_mean P) iot related m kw)
                                (received_frames P (cleaned_keywords keywords) z l 0 s)) \<and>
          list_all (\<lambda>rec. \<exists>iot related. batch_answer P z l (keyword rec) iot related \<and>
                            rec = kw_record (wide_mean P) iot related m (keyword rec))
            (ergebnisse r))))"
proof (cases "cleaned_keywords keywords = []")
  case True
  then show ?thesis by (simp add: get_fst)
next
  case False
  consider (raised) x where
      "fst (try_body P (cleaned_keywords keywords) l z spr m) = Inl x"
      "TrendReq P spr = Inl x \<or> (\<exists>s b. build_payload P s b z l = Inl x) \<or>
         (\<exists>s. interest_over_time P s = Inl x) \<or> (\<exists>s. related_queries P s = Inl x)"
    | (returned) s erg where "TrendReq P spr = Inr s"
      "fst (try_body P (cleaned_keywords keywords) l z spr m)
             = Inr \<lparr>trends_verfuegbar = True, ergebnisse = erg, hinweis = hinweis_proxy\<rparr>"
      "map keyword erg = cleaned_keywords keywords"
      "erg = map (\<lambda>(kw, iot, related). kw_record (wide_mean P) iot related m kw)
                  (received_frames P (cleaned_keywords keywords) z l 0 s)"
      "list_all (\<lambda>rec. \<exists>iot related. batch_answer P z l (keyword rec) iot related \<and>
                            rec = kw_record (wide_mean P) iot related m (keyword rec)) erg"
    using try_body_cases[of P "cleaned_keywords keywords" l z spr m] by blast
  then show ?thesis
  proof cases
    case (raised x)
    note x = raised(1) and o = raised(2)
    show ?thesis
    proof (cases x)
      case (Exception e)
      with x False fallback_records[of "cleaned_keywords keywords" e] show ?thesis
        by (simp add: get_fst)
    next
      case (BaseException b)
      with o have "\<not> raises_only_Exception P" unfolding raises_only_Exception_def by blast
      with x False BaseException show ?thesis by (simp add: get_fst)
    qed
  next
    case (returned s erg)
    with False show ?thesis by (simp add: get_fst)
  qed
qed

lemma get_result_elim:
  obtains (interrupted) b where
      "fst (get_trend_daten_fuer_keywords P keywords l z spr m) = Inl (BaseException b)"
      "\<not> raises_only_Exception P"
  | (unavailable) r where
      "fst (get_trend_daten_fuer_keywords P keywords l z spr m) = Inr r"
      "map keyword (ergebnisse r) = cleaned_keywords keywords"
      "\<not> trends_verfuegbar r" "list_all unavailable_record (ergebnisse r)"
  | (available) r where
      "fst (get_trend_daten_fuer_keywords P keywords l z spr m) = Inr r"
      "map keyword (ergebnisse r) = cleaned_keywords keywords"
      "trends_verfuegbar r" "cleaned_keywords keywords \<noteq> []" "hinweis r = hinweis_proxy"
      "list_all (\<lambda>rec. \<exists>iot related. batch_answer P z l (keyword rec) iot related \<and>
                         rec = kw_record (wide_mean P) iot related m (keyword rec)) (ergebnisse r)"
      "\<exists>s. TrendReq P spr = Inr s \<and>
           ergebnisse r = map (\<lambda>(kw, iot, related). kw_record (wide_mean P) iot related m kw)
                            (received_frames P (cleaned_keywords keywords) z l 0 s)"
  using get_result_cases[of P "keywords" l z spr m] by blast

lemma available_records:
  assumes "list_all (\<lambda>rec. \<exists>iot related. batch_answer P z l (keyword rec) iot related \<and>
                         rec = kw_record (wide_mean P) iot related m (keyword rec)) erg"
    and "\<And>iot related kw. batch_answer P z l kw iot related \<Longrightarrow>
           Q (kw_record (wide_mean P) iot related m kw)"
  shows "list_all Q erg"
  unfolding list_all_iff
proof
  fix rec assume "rec \<in> set erg"
  with assms(1) obtain iot related where "batch_answer P z l (keyword rec) iot related"
    "rec = kw_record (wide_mean P) iot related m (keyword rec)" by (auto simp: list_all_iff)
  with assms(2)[of "keyword rec" iot related] show "Q rec" by simp
qed

lemma unavailable_records:
  assumes "list_all unavailable_record erg"
    and "\<And>rec. unavailable_record rec \<Longrightarrow> Q rec"
  shows "list_all Q erg"
  using assms by (auto simp: list_all_iff)

lemma distinct_cleaned: "distinct (cleaned_keywords keywords)"
  by (simp add: cleaned_surviving surviving_keywords_def distinct_first_seen)

text \<open>
  A property that holds of every fallback record and of every record the loop builds
  holds of every returned record; and the tool returns when the provider raises nothing
  but an \<^verbatim>\<open>Exception\<close>.
\<close>

lemma returned_records:
  assumes "\<And>rec. unavailable_record rec \<Longrightarrow> Q rec"
    and "\<And>iot related kw. batch_answer P z l kw iot related \<Longrightarrow>
           Q (kw_record (wide_mean P) iot related m kw)"
  shows "(\<forall>r. fst (get_trend_daten_fuer_keywords P keywords l z spr m) = Inr r \<longrightarrow>
              list_all Q (ergebnisse r)) \<and>
         (raises_only_Exception P \<longrightarrow>
            (\<exists>r. fst (get_trend_daten_fuer_keywords P keywords l z spr m) = Inr r \<and>
                 list_all Q (ergebnisse r)))"
proof (cases rule: get_result_elim[of P "keywords" l z spr m])
  case (interrupted b)
  then show ?thesis by simp
next
  case (unavailable r)
  have "list_all Q (ergebnisse r)"
    by (rule unavailable_records[where Q = Q, OF unavailable(4)]) (rule assms(1))
  with unavailable(1) show ?thesis by auto
next
  case (available r)
  have "list_all Q (ergebnisse r)"
    by (rule available_records[where Q = Q, OF available(6)]) (rule assms(2))
  with available(1) show ?thesis by auto
qed




lemma try_body_raise_TrendReq:
  "TrendReq P spr = Inl e \<Longrightarrow> fst (try_body P cleaned l z spr m) = Inl e"
  by (simp add: try_body_def)

lemma try_body_raise_first_batch:
  assumes "TrendReq P spr = Inr s" "cleaned \<noteq> []"
    and "build_payload P s (take BATCH_SIZE cleaned) z l = Inl e"
  shows "fst (try_body P cleaned l z spr m) = Inl e"
proof -
  have "fst (batch_loop P cleaned z l m 0 s [] [CallTrendReq spr]) = Inl e"
    using assms(2,3) by (intro batch_loop_raise) auto
  with assms(1) show ?thesis
    by (auto simp: try_body_def split: prod.splits sum.splits)
qed

lemma batch_loop_calls:
  "\<exists>cs. snd (batch_loop P cleaned z l m i s erg calls) = calls @ cs"
proof (induction P cleaned z l m i s erg calls rule: batch_loop.induct)
  case (1 P cleaned z l m i s erg calls)
  let ?batch = "take BATCH_SIZE (drop i cleaned)"
  show ?case
  proof (cases "i < length cleaned")
    case False
    then show ?thesis by (simp add: batch_loop_done)
  next
    case True
    show ?thesis
    proof (cases "build_payload P s ?batch z l")
      case (Inl e)
      with True show ?thesis by (subst batch_loop.simps) (simp add: Let_def)
    next
      case bp: (Inr s1)
      show ?thesis
      proof (cases "interest_over_time P s1")
        case (Inl e)
        with True bp show ?thesis by (subst batch_loop.simps) (simp add: Let_def)
      next
        case (Inr a)
        then obtain iot s2 where io: "interest_over_time P s1 = Inr (iot, s2)" by (cases a) auto
        show ?thesis
        proof (cases "related_queries P s2")
          case (Inl e)
          with True bp io show ?thesis by (subst batch_loop.simps) (simp add: Let_def)
        next
          case (Inr b)
          then obtain related s3 where rq: "related_queries P s2 = Inr (related, s3)"
            by (cases b) auto
          from "1.IH"[OF True refl refl bp refl io refl refl rq refl]
          show ?thesis by (auto simp: batch_loop_step[OF True bp io rq])
        qed
      qed
    qed
  qed
qed

lemma nonempty_cleaned_calls_provider:
  assumes "cleaned_keywords keywords \<noteq> []"
  shows "\<exists>cs. snd (get_trend_daten_fuer_keywords P keywords l z spr m) = CallTrendReq spr # cs"
proof -
  have "\<exists>cs. snd (try_body P cleaned l z spr m) = CallTrendReq spr # cs" for cleaned
  proof (cases "TrendReq P spr")
    case (Inl e)
    then show ?thesis by (simp add: try_body_def)
  next
    case (Inr s)
    from batch_loop_calls[of P cleaned z l m 0 s "[]" "[CallTrendReq spr]"]
    obtain cs where "snd (batch_loop P cleaned z l m 0 s [] [CallTrendReq spr]) = CallTrendReq spr # cs"
      by auto
    with Inr show ?thesis by (auto simp: try_body_def split: prod.splits sum.splits)
  qed
  from this[of "cleaned_keywords keywords"] assms show ?thesis
    by (auto simp: get_trend_daten_fuer_keywords_def Let_def
        split: prod.splits sum.splits py_raise.splits)
qed

section \<open>The form handler's checks\<close>

lemma valid_request_invokes_agent:
  assumes "strip thema \<noteq> []" "0 \<le> a" "a \<le> b"
  shows "snd (process_request_async run present thema artikeltext (NumberValue a) (NumberValue b))
           = [(strip thema, (case artikeltext of None \<Rightarrow> [] | Some t \<Rightarrow> t), a, b)]"
  using assms by (auto simp: process_request_async_def py_int_def Let_def split: sum.splits)

lemma unparsable_age_rejected:
  "alter_min = NoNumber \<or> alter_max = NoNumber \<Longrightarrow>
   snd (process_request_async run present thema artikeltext alter_min alter_max) = []"
  by (auto simp: process_request_async_def py_int_def split: sum.splits form_number.splits)


section \<open>The claims\<close>

text \<open>
  C9. When no keyword survives normalisation, the denylist and deduplication, and so for
  the empty list, the tool returns at once: trends unavailable, no record, and not one
  call of the provider.
\<close>

theorem empty_cleaned_returns_without_provider:
  "(surviving_keywords keywords = [] \<longrightarrow>
      get_trend_daten_fuer_keywords P keywords land zeitraum sprache max_verwandte =
        (Inr \<lparr>trends_verfuegbar = False, ergebnisse = [], hinweis = hinweis_keine\<rparr>, [])) \<and>
   get_trend_daten_fuer_keywords P [] land zeitraum sprache max_verwandte =
     (Inr \<lparr>trends_verfuegbar = False, ergebnisse = [], hinweis = hinweis_keine\<rparr>, [])"
proof -
  have "cleaned_keywords [] = []"
    by (simp add: cleaned_keywords_def dedupe_preserve_order_def)
  then show ?thesis
    by (simp add: get_trend_daten_fuer_keywords_def cleaned_surviving)
qed

theorem empty_cleaned_returns_without_provider_witness:
  "surviving_keywords [''   '', ''Kokain kaufen''] = [] \<and>
   get_trend_daten_fuer_keywords flaky_provider [''   '', ''Kokain kaufen''] ''DE'' ''today 12-m''
       ''de-DE'' 5 =
     (Inr \<lparr>trends_verfuegbar = False, ergebnisse = [], hinweis = hinweis_keine\<rparr>, [])"
proof -
  have h: "surviving_keywords [''   '', ''Kokain kaufen''] = []" by code_simp
  from empty_cleaned_returns_without_provider[THEN conjunct1, rule_format, OF h, of flaky_provider]
  show ?thesis using h by (intro conjI)
qed

text \<open>
  C5. When both ages are integers and one is negative or the minimum exceeds the maximum,
  the handler returns the error outputs and never invokes the agent: the range message
  for a topic that is not blank, the topic message for a blank one.
\<close>

theorem invalid_age_range_rejected_before_agent:
  assumes "alter_min = NumberValue a" "alter_max = NumberValue b"
    and "a < 0 \<or> b < 0 \<or> a > b"
  shows "process_request_async run present thema artikeltext alter_min alter_max =
           (Inr (make_error_outputs
                   (if strip thema = [] then fehler_thema else fehler_altersbereich)), [])"
  using assms by (auto simp: process_request_async_def py_int_def)

theorem invalid_age_range_rejected_before_agent_witness:
  "process_request_async sample_run sample_present ''SEO'' None (NumberValue 30) (NumberValue 18)
     = (Inr (make_error_outputs fehler_altersbereich), [])"
proof -
  have s: "strip ''SEO'' \<noteq> []" by code_simp
  have "(30::int) < 0 \<or> (18::int) < 0 \<or> (30::int) > 18" by simp
  from invalid_age_range_rejected_before_agent[OF refl refl this, of sample_run sample_present "''SEO''" None]
  show ?thesis using s by simp
qed



text \<open>
  C2, as amended. For every list of strings and all other arguments the tool returns a
  dictionary, one record per cleaned keyword, each with \<^verbatim>\<open>suchvolumen\<close> null,
  whenever the provider raises nothing but instances of \<^verbatim>\<open>Exception\<close>. What can
  reach the caller is a \<^verbatim>\<open>BaseException\<close> outside that class that a provider call
  raised.
\<close>

theorem tool_returns_unless_base_exception:
  "(raises_only_Exception P \<longrightarrow>
      (\<exists>r. fst (get_trend_daten_fuer_keywords P keywords land zeitraum sprache max_verwandte)
              = Inr r \<and>
           length (ergebnisse r) = length (cleaned_keywords keywords) \<and>
           list_all (\<lambda>rec. suchvolumen rec = None) (ergebnisse r))) \<and>
   (\<forall>x. fst (get_trend_daten_fuer_keywords P keywords land zeitraum sprache max_verwandte)
           = Inl x \<longrightarrow>
        (\<exists>b. x = BaseException b) \<and> \<not> raises_only_Exception P)"
proof (cases rule: get_result_elim[of P "keywords" land zeitraum sprache max_verwandte])
  case (interrupted b)
  then show ?thesis by simp
next
  case (unavailable r)
  from unavailable(2) have "length (ergebnisse r) = length (cleaned_keywords keywords)"
    by (metis length_map)
  moreover have "list_all (\<lambda>rec. suchvolumen rec = None) (ergebnisse r)"
    by (rule unavailable_records[OF unavailable(4)]) (simp add: unavailable_record_def)
  ultimately show ?thesis using unavailable(1) by auto
next
  case (available r)
  from available(2) have "length (ergebnisse r) = length (cleaned_keywords keywords)"
    by (metis length_map)
  moreover have "list_all (\<lambda>rec. suchvolumen rec = None) (ergebnisse r)"
    by (rule available_records[OF available(6)]) simp
  ultimately show ?thesis using available(1) by auto
qed

theorem tool_returns_unless_base_exception_witness:
  "raises_only_Exception flaky_provider \<and>
   (\<exists>r. fst (get_trend_daten_fuer_keywords flaky_provider sample_keywords ''DE'' ''today 12-m''
              ''de-DE'' 5) = Inr r \<and>
        length (ergebnisse r) = length (cleaned_keywords sample_keywords) \<and>
        list_all (\<lambda>rec. suchvolumen rec = None) (ergebnisse r))"
proof -
  have h: "raises_only_Exception flaky_provider"
    by (simp add: raises_only_Exception_def flaky_provider_def)
  from tool_returns_unless_base_exception[THEN conjunct1, rule_format, OF h]
  show ?thesis using h by (intro conjI)
qed

text \<open>
  C2 as stated fails: a \<^verbatim>\<open>KeyboardInterrupt\<close> raised inside a provider call is no
  \<^verbatim>\<open>Exception\<close>, passes the handler and reaches the caller.
\<close>

theorem tool_passes_base_exception_counterexample:
  "fst (get_trend_daten_fuer_keywords interrupted_provider [''seo''] ''DE'' ''today 12-m''
          ''de-DE'' 5) = Inl (BaseException ''KeyboardInterrupt'')"
  by code_simp

text \<open>
  C3. No keyword of a returned record and no entry of a returned list of related queries
  is empty after normalisation or refused by \<open>brand_safety_ok\<close>; and the tool returns
  such a result for every provider that raises nothing but an \<^verbatim>\<open>Exception\<close>.
\<close>

theorem output_never_empty_or_denylisted:
  "(\<forall>r. fst (get_trend_daten_fuer_keywords P keywords land zeitraum sprache max_verwandte) = Inr r \<longrightarrow> list_all (\<lambda>rec. normalisiere_keyword (keyword rec) \<noteq> [] \<and> brand_safety_ok (keyword rec) \<and>
                    list_all (\<lambda>q. normalisiere_keyword q \<noteq> [] \<and> brand_safety_ok q)
                      (verwandte_suchanfragen rec)) (ergebnisse r)) \<and>
   (raises_only_Exception P \<longrightarrow>
      (\<exists>r. fst (get_trend_daten_fuer_keywords P keywords land zeitraum sprache max_verwandte) = Inr r \<and> list_all (\<lambda>rec. normalisiere_keyword (keyword rec) \<noteq> [] \<and> brand_safety_ok (keyword rec) \<and>
                    list_all (\<lambda>q. normalisiere_keyword q \<noteq> [] \<and> brand_safety_ok q)
                      (verwandte_suchanfragen rec)) (ergebnisse r)))"
proof -
  let ?ok = "\<lambda>q. normalisiere_keyword q \<noteq> [] \<and> brand_safety_ok q"
  have kw: "list_all (\<lambda>rec. ?ok (keyword rec)) (ergebnisse r)"
    if "map keyword (ergebnisse r) = cleaned_keywords keywords" for r :: trend_result
    unfolding list_all_iff
  proof
    fix rec assume "rec \<in> set (ergebnisse r)"
    then have "keyword rec \<in> set (map keyword (ergebnisse r))" by simp
    then have "keyword rec \<in> set (cleaned_keywords keywords)" by (simp only: that)
    from cleaned_entries[OF this] show "?ok (keyword rec)" by simp
  qed
  show ?thesis
  proof (cases rule: get_result_elim[of P "keywords" land zeitraum sprache max_verwandte])
    case (interrupted b)
    then show ?thesis by simp
  next
    case (unavailable r)
    have "list_all (\<lambda>rec. list_all ?ok (verwandte_suchanfragen rec)) (ergebnisse r)"
      by (rule unavailable_records[OF unavailable(4)]) (simp add: unavailable_record_def)
    with kw[OF unavailable(2)] have "list_all (\<lambda>rec. normalisiere_keyword (keyword rec) \<noteq> [] \<and> brand_safety_ok (keyword rec) \<and>
                    list_all (\<lambda>q. normalisiere_keyword q \<noteq> [] \<and> brand_safety_ok q)
                      (verwandte_suchanfragen rec)) (ergebnisse r)" by (auto simp: list_all_iff)
    with unavailable(1) show ?thesis by auto
  next
    case (available r)
    have "list_all (\<lambda>rec. list_all ?ok (verwandte_suchanfragen rec)) (ergebnisse r)"
    proof (rule available_records[OF available(6)])
      fix iot related kw
      show "list_all ?ok (verwandte_suchanfragen
              (kw_record (wide_mean P) iot related max_verwandte kw))"
        using kw_record_entries[of _ "wide_mean P" iot related max_verwandte kw]
        by (auto simp: list_all_iff)
    qed
    with kw[OF available(2)] have "list_all (\<lambda>rec. normalisiere_keyword (keyword rec) \<noteq> [] \<and> brand_safety_ok (keyword rec) \<and>
                    list_all (\<lambda>q. normalisiere_keyword q \<noteq> [] \<and> brand_safety_ok q)
                      (verwandte_suchanfragen rec)) (ergebnisse r)" by (auto simp: list_all_iff)
    with available(1) show ?thesis by auto
  qed
qed

theorem output_never_empty_or_denylisted_witness:
  "raises_only_Exception (steady_provider sample_iot sample_related) \<and>
   (\<exists>r. fst (get_trend_daten_fuer_keywords (steady_provider sample_iot sample_related)
              sample_keywords ''DE'' ''today 12-m'' ''de-DE'' 5) = Inr r \<and>
        list_all (\<lambda>rec. normalisiere_keyword (keyword rec) \<noteq> [] \<and> brand_safety_ok (keyword rec) \<and>
                    list_all (\<lambda>q. normalisiere_keyword q \<noteq> [] \<and> brand_safety_ok q)
                      (verwandte_suchanfragen rec)) (ergebnisse r))"
proof -
  have h: "raises_only_Exception (steady_provider sample_iot sample_related)"
    by (simp add: raises_only_Exception_def steady_provider_def)
  from output_never_empty_or_denylisted[THEN conjunct2, rule_format, OF h]
  show ?thesis using h by (intro conjI)
qed

text \<open>
  C4. On both paths the keywords of the returned records are the surviving keywords of
  the specification: normalised, the empty and denylisted ones dropped, deduplicated in
  first-seen order, one record each; and the tool returns such a result for every
  provider that raises nothing but an \<^verbatim>\<open>Exception\<close>.
\<close>

theorem output_keywords_first_seen_order:
  "(\<forall>r. fst (get_trend_daten_fuer_keywords P keywords land zeitraum sprache max_verwandte) = Inr r \<longrightarrow>
        map keyword (ergebnisse r) = surviving_keywords keywords \<and>
        distinct (map keyword (ergebnisse r))) \<and>
   (raises_only_Exception P \<longrightarrow>
      (\<exists>r. fst (get_trend_daten_fuer_keywords P keywords land zeitraum sprache max_verwandte) = Inr r \<and>
           map keyword (ergebnisse r) = surviving_keywords keywords \<and>
           distinct (map keyword (ergebnisse r))))"
proof (cases rule: get_result_elim[of P "keywords" land zeitraum sprache max_verwandte])
  case (interrupted b)
  then show ?thesis by simp
next
  case (unavailable r)
  then show ?thesis using distinct_cleaned[of "keywords"] by (auto simp: cleaned_surviving)
next
  case (available r)
  then show ?thesis using distinct_cleaned[of "keywords"] by (auto simp: cleaned_surviving)
qed

theorem output_keywords_first_seen_order_witness:
  "raises_only_Exception flaky_provider \<and>
   (\<exists>r. fst (get_trend_daten_fuer_keywords flaky_provider sample_keywords ''DE'' ''today 12-m''
              ''de-DE'' 5) = Inr r \<and>
        map keyword (ergebnisse r) = [''seo'', ''yoga'', ''laufen'', ''a'', ''b'', ''c''])"
proof -
  have h: "raises_only_Exception flaky_provider"
    by (simp add: raises_only_Exception_def flaky_provider_def)
  have s: "surviving_keywords sample_keywords = [''seo'', ''yoga'', ''laufen'', ''a'', ''b'', ''c'']"
    by code_simp
  from output_keywords_first_seen_order[THEN conjunct2, rule_format, OF h,
      of sample_keywords "''DE''" "''today 12-m''" "''de-DE''" 5]
  obtain r where "fst (get_trend_daten_fuer_keywords flaky_provider sample_keywords ''DE''
      ''today 12-m'' ''de-DE'' 5) = Inr r"
    "map keyword (ergebnisse r) = surviving_keywords sample_keywords" by (elim exE conjE)
  then have "\<exists>r. fst (get_trend_daten_fuer_keywords flaky_provider sample_keywords ''DE''
      ''today 12-m'' ''de-DE'' 5) = Inr r \<and>
        map keyword (ergebnisse r) = [''seo'', ''yoga'', ''laufen'', ''a'', ''b'', ''c'']"
    unfolding s by (intro exI[of _ r] conjI)
  with h show ?thesis by (intro conjI)
qed

text \<open>
  C6, as amended. For a maximum that is not negative, every returned record has at most
  \<^verbatim>\<open>max_verwandte\<close> related queries; and the tool returns such a result for every
  provider that raises nothing but an \<^verbatim>\<open>Exception\<close>.
\<close>

theorem related_queries_bounded:
  assumes "0 \<le> max_verwandte"
  shows "(\<forall>r. fst (get_trend_daten_fuer_keywords P keywords land zeitraum sprache max_verwandte) = Inr r \<longrightarrow>
              list_all (\<lambda>rec. int (length (verwandte_suchanfragen rec)) \<le> max_verwandte)
                (ergebnisse r)) \<and>
         (raises_only_Exception P \<longrightarrow>
            (\<exists>r. fst (get_trend_daten_fuer_keywords P keywords land zeitraum sprache max_verwandte) = Inr r \<and>
                 list_all (\<lambda>rec. int (length (verwandte_suchanfragen rec)) \<le> max_verwandte)
                   (ergebnisse r)))"
proof (rule returned_records)
  fix rec assume "unavailable_record rec"
  with assms show "int (length (verwandte_suchanfragen rec)) \<le> max_verwandte"
    by (simp add: unavailable_record_def)
next
  fix iot related kw
  show "int (length (verwandte_suchanfragen
          (kw_record (wide_mean P) iot related max_verwandte kw))) \<le> max_verwandte"
    by (rule kw_record_length[OF assms])
qed

theorem related_queries_bounded_witness:
  "(0::int) \<le> 5 \<and> raises_only_Exception (steady_provider sample_iot sample_related) \<and>
   (\<exists>r. fst (get_trend_daten_fuer_keywords (steady_provider sample_iot sample_related)
               sample_keywords ''DE'' ''today 12-m'' ''de-DE'' 5) = Inr r \<and>
         list_all (\<lambda>rec. int (length (verwandte_suchanfragen rec)) \<le> 5) (ergebnisse r))"
proof -
  have h: "(0::int) \<le> 5" by simp
  have o: "raises_only_Exception (steady_provider sample_iot sample_related)"
    by (simp add: raises_only_Exception_def steady_provider_def)
  from related_queries_bounded[OF h, THEN conjunct2, rule_format, OF o]
  show ?thesis using h o by (intro conjI)
qed

text \<open>
  C6 as stated fails for a negative maximum: \<^verbatim>\<open>head(-1)\<close> keeps all rows but the
  last, and the list that results is longer than \<open>-1\<close>.
\<close>

theorem related_queries_negative_maximum_counterexample:
  "fst (get_trend_daten_fuer_keywords (steady_provider sample_iot sample_related) [''seo'']
          ''DE'' ''today 12-m'' ''de-DE'' (- 1))
     = Inr \<lparr>trends_verfuegbar = True,
            ergebnisse = [\<lparr>keyword = ''seo'', trend_index = Some 12, suchvolumen = None,
                           verwandte_suchanfragen = [''seo kurs'']\<rparr>],
            hinweis = hinweis_proxy\<rparr> \<and>
   \<not> int (length [''seo kurs'']) \<le> - 1"
  by code_simp

text \<open>
  C7, as amended. On the success path every record is built from the frame the provider
  returned for the batch of its keyword in this run. Its trend index is null for an
  absent column, for one without a non-null value and for one whose mean cannot be
  taken; for a column whose non-null values are within double range it is their mean
  rounded to a nearest integer.
\<close>

theorem trend_index_is_rounded_mean:
  assumes "fst (get_trend_daten_fuer_keywords P keywords land zeitraum sprache max_verwandte) = Inr r"
    and "trends_verfuegbar r"
  shows "\<exists>s. TrendReq P sprache = Inr s \<and>
           list_all2
             (\<lambda>rec (kw, iot, related).
                keyword rec = kw \<and> spec_trend_index_in_range iot kw (trend_index rec))
             (ergebnisse r)
             (received_frames P (cleaned_keywords keywords) zeitraum land 0 s)"
proof (cases rule: get_result_elim[of P "keywords" land zeitraum sprache max_verwandte])
  case (interrupted b)
  with assms show ?thesis by simp
next
  case (unavailable r')
  with assms show ?thesis by simp
next
  case (available r')
  with assms(1) have "r' = r" by simp
  with available(7) obtain s where s: "TrendReq P sprache = Inr s"
    and e: "ergebnisse r =
      map (\<lambda>(kw, iot, related). kw_record (wide_mean P) iot related max_verwandte kw)
        (received_frames P (cleaned_keywords keywords) zeitraum land 0 s)"
    by blast
  have "list_all2
          (\<lambda>rec (kw, iot, related).
             keyword rec = kw \<and> spec_trend_index_in_range iot kw (trend_index rec))
          (map (\<lambda>(kw, iot, related). kw_record (wide_mean P) iot related max_verwandte kw) fs)
          fs" for fs
    by (induction fs) (auto simp: kw_record_spec_trend_index)
  with s e show ?thesis by auto
qed

theorem trend_index_is_rounded_mean_witness:
  "\<exists>r. fst (get_trend_daten_fuer_keywords (steady_provider sample_iot sample_related)
              [''seo'', ''laufen'', ''sport''] ''DE'' ''today 12-m'' ''de-DE'' 5) = Inr r \<and>
        trends_verfuegbar r \<and>
        map trend_index (ergebnisse r) = [Some 12, None, None] \<and>
        in_double_range (dropna [Some 10, None, Some 13]) \<and>
        (\<exists>s. TrendReq (steady_provider sample_iot sample_related) ''de-DE'' = Inr s \<and>
           list_all2
             (\<lambda>rec (kw, iot, related).
                keyword rec = kw \<and> spec_trend_index_in_range iot kw (trend_index rec))
             (ergebnisse r)
             (received_frames (steady_provider sample_iot sample_related)
                (cleaned_keywords [''seo'', ''laufen'', ''sport'']) ''today 12-m'' ''DE'' 0 s))"
proof -
  let ?r = "\<lparr>trends_verfuegbar = True,
             ergebnisse =
               [\<lparr>keyword = ''seo'', trend_index = Some 12, suchvolumen = None,
                  verwandte_suchanfragen = [''seo kurs'', ''seo tool'']\<rparr>,
                \<lparr>keyword = ''laufen'', trend_index = None, suchvolumen = None,
                  verwandte_suchanfragen = []\<rparr>,
                \<lparr>keyword = ''sport'', trend_index = None, suchvolumen = None,
                  verwandte_suchanfragen = []\<rparr>],
             hinweis = hinweis_proxy\<rparr>"
  have a: "fst (get_trend_daten_fuer_keywords (steady_provider sample_iot sample_related)
              [''seo'', ''laufen'', ''sport''] ''DE'' ''today 12-m'' ''de-DE'' 5) = Inr ?r"
    by code_simp
  have b: "trends_verfuegbar ?r" by simp
  have c: "map trend_index (ergebnisse ?r) = [Some 12, None, None]" by simp
  have d: "in_double_range (dropna [Some 10, None, Some 13])" by code_simp
  show ?thesis
    by (rule exI[of _ ?r])
       (rule conjI[OF a conjI[OF b conjI[OF c conjI[OF d trend_index_is_rounded_mean[OF a b]]]]])
qed

text \<open>
  C7 as stated fails beyond double precision: the mean of the one cell \<open>2 ^ 53 + 1\<close> is
  that cell, and the tool returns \<open>2 ^ 53\<close>, the double nearest to it.
\<close>

theorem trend_index_beyond_double_counterexample:
  "fst (get_trend_daten_fuer_keywords wide_provider [''seo''] ''DE'' ''today 12-m''
          ''de-DE'' 5)
     = Inr \<lparr>trends_verfuegbar = True,
            ergebnisse = [\<lparr>keyword = ''seo'', trend_index = Some 9007199254740992,
                           suchvolumen = None,
                           verwandte_suchanfragen = [''seo kurs'', ''seo tool'']\<rparr>],
            hinweis = hinweis_proxy\<rparr> \<and>
   wide_iot ''seo'' = Some (Numeric [Some 9007199254740993]) \<and>
   exact_mean (dropna [Some 9007199254740993]) = 9007199254740993 \<and>
   \<not> spec_trend_index wide_iot ''seo'' (Some 9007199254740992)"
  by code_simp

text \<open>
  C8, as amended. Every returned record has \<^verbatim>\<open>suchvolumen\<close> null; its trend index
  is null or an integer, and it lies between 0 and 100 when every non-null value of the
  frames the provider returns does. The tool returns such a result for every provider
  that raises nothing but an \<^verbatim>\<open>Exception\<close>.
\<close>

theorem trend_index_in_range:
  assumes "\<And>s iot s' kw cells v.
             interest_over_time P s = Inr (iot, s') \<Longrightarrow> iot kw = Some (Numeric cells) \<Longrightarrow>
             v \<in> set (dropna cells) \<Longrightarrow> 0 \<le> v \<and> v \<le> 100"
  shows "(\<forall>r. fst (get_trend_daten_fuer_keywords P keywords land zeitraum sprache max_verwandte) = Inr r \<longrightarrow> list_all (\<lambda>rec. suchvolumen rec = None \<and>
                         (case trend_index rec of None \<Rightarrow> True | Some t \<Rightarrow> 0 \<le> t \<and> t \<le> 100)) (ergebnisse r)) \<and>
         (raises_only_Exception P \<longrightarrow>
            (\<exists>r. fst (get_trend_daten_fuer_keywords P keywords land zeitraum sprache max_verwandte) = Inr r \<and> list_all (\<lambda>rec. suchvolumen rec = None \<and>
                         (case trend_index rec of None \<Rightarrow> True | Some t \<Rightarrow> 0 \<le> t \<and> t \<le> 100)) (ergebnisse r)))"
proof (rule returned_records)
  fix rec assume "unavailable_record rec"
  then show "suchvolumen rec = None \<and>
      (case trend_index rec of None \<Rightarrow> True | Some t \<Rightarrow> 0 \<le> t \<and> t \<le> 100)"
    by (simp add: unavailable_record_def)
next
  fix iot related kw
  assume "batch_answer P zeitraum land kw iot related"
  then obtain s s' where io: "interest_over_time P s = Inr (iot, s')"
    unfolding batch_answer_def by blast
  have "float_mean (wide_mean P) (dropna cells) = Some (exact_mean (dropna cells)) \<and>
        0 \<le> py_round (exact_mean (dropna cells)) \<and> py_round (exact_mean (dropna cells)) \<le> 100"
    if "iot kw = Some (Numeric cells)" "dropna cells \<noteq> []" for cells
  proof -
    have v: "\<forall>v \<in> set (dropna cells). 0 \<le> v \<and> v \<le> 100"
      using assms[OF io that(1)] by blast
    then have "in_double_range (dropna cells)"
      by (auto simp: in_double_range_def list_all_iff)
    moreover from mean_range[OF that(2) v]
    have "0 \<le> py_round (exact_mean (dropna cells)) \<and> py_round (exact_mean (dropna cells)) \<le> 100"
      by (intro py_round_range) auto
    ultimately show ?thesis by (simp add: float_mean_in_range)
  qed
  then show "suchvolumen (kw_record (wide_mean P) iot related max_verwandte kw) = None \<and>
      (case trend_index (kw_record (wide_mean P) iot related max_verwandte kw) of
         None \<Rightarrow> True | Some t \<Rightarrow> 0 \<le> t \<and> t \<le> 100)"
    by (auto simp: kw_record_trend_index split: option.splits column.splits)
qed

theorem trend_index_in_range_witness:
  "raises_only_Exception (steady_provider sample_iot sample_related) \<and>
   (\<exists>r. fst (get_trend_daten_fuer_keywords (steady_provider sample_iot sample_related)
              sample_keywords ''DE'' ''today 12-m'' ''de-DE'' 5) = Inr r \<and>
        list_all (\<lambda>rec. suchvolumen rec = None \<and>
                         (case trend_index rec of None \<Rightarrow> True | Some t \<Rightarrow> 0 \<le> t \<and> t \<le> 100)) (ergebnisse r))"
proof -
  have o: "raises_only_Exception (steady_provider sample_iot sample_related)"
    by (simp add: raises_only_Exception_def steady_provider_def)
  have "\<exists>r. fst (get_trend_daten_fuer_keywords (steady_provider sample_iot sample_related)
              sample_keywords ''DE'' ''today 12-m'' ''de-DE'' 5) = Inr r \<and>
        list_all (\<lambda>rec. suchvolumen rec = None \<and>
                         (case trend_index rec of None \<Rightarrow> True | Some t \<Rightarrow> 0 \<le> t \<and> t \<le> 100)) (ergebnisse r)"
  proof (rule trend_index_in_range[THEN conjunct2, rule_format])
    fix s :: unit and iot s' kw cells v
    assume "interest_over_time (steady_provider sample_iot sample_related) s = Inr (iot, s')"
    then have i: "iot = sample_iot" by (simp add: steady_provider_def)
    assume "iot kw = Some (Numeric cells)" "v \<in> set (dropna cells)"
    with i show "0 \<le> v \<and> v \<le> 100"
      by (auto simp: sample_iot_def split: if_splits)
  next
    show "raises_only_Exception (steady_provider sample_iot sample_related)" by (rule o)
  qed
  with o show ?thesis by (intro conjI)
qed

text \<open>
  C8 as stated fails when the provider returns a value beyond 100: the tool does not
  clamp the mean.
\<close>

theorem trend_index_out_of_range_counterexample:
  "fst (get_trend_daten_fuer_keywords (steady_provider overshooting_iot sample_related) [''seo'']
          ''DE'' ''today 12-m'' ''de-DE'' 5)
     = Inr \<lparr>trends_verfuegbar = True,
            ergebnisse = [\<lparr>keyword = ''seo'', trend_index = Some 250, suchvolumen = None,
                           verwandte_suchanfragen = [''seo kurs'', ''seo tool'']\<rparr>],
            hinweis = hinweis_proxy\<rparr> \<and>
   \<not> (250::int) \<le> 100"
  by code_simp

text \<open>
  C1, as amended. When an \<^verbatim>\<open>Exception\<close> leaves the body of the outer
  \<^verbatim>\<open>try\<close>, the tool returns trends unavailable, exactly one record per surviving
  keyword in first-seen order, each with null trend index, null \<^verbatim>\<open>suchvolumen\<close>
  and no related query, and a note that ends with the exception's message.
\<close>

theorem provider_failure_gives_fallback:
  assumes "fst (try_body P (cleaned_keywords keywords) land zeitraum sprache max_verwandte)
             = Inl (Exception e)"
    and "cleaned_keywords keywords \<noteq> []"
  shows "\<exists>r. fst (get_trend_daten_fuer_keywords P keywords land zeitraum sprache max_verwandte) = Inr r \<and>
             \<not> trends_verfuegbar r \<and>
             map keyword (ergebnisse r) = surviving_keywords keywords \<and>
             distinct (map keyword (ergebnisse r)) \<and>
             list_all unavailable_record (ergebnisse r) \<and>
             hinweis r = hinweis_fehler e"
  using assms fallback_records[of "cleaned_keywords keywords" e] distinct_cleaned[of "keywords"]
  by (intro exI[of _ "fallback (cleaned_keywords keywords) e"])
     (simp add: get_fst cleaned_surviving)

theorem provider_failure_gives_fallback_witness:
  "\<exists>r. fst (get_trend_daten_fuer_keywords flaky_provider sample_keywords ''DE'' ''today 12-m''
              ''de-DE'' 5) = Inr r \<and>
        \<not> trends_verfuegbar r \<and>
        map keyword (ergebnisse r) = [''seo'', ''yoga'', ''laufen'', ''a'', ''b'', ''c''] \<and>
        list_all unavailable_record (ergebnisse r) \<and>
        hinweis r = hinweis_fehler (PyException ''429 Too Many Requests'')"
proof -
  have c: "cleaned_keywords sample_keywords = [''seo'', ''yoga'', ''laufen'', ''a'', ''b'', ''c'']"
    by code_simp
  have s: "surviving_keywords sample_keywords = [''seo'', ''yoga'', ''laufen'', ''a'', ''b'', ''c'']"
    by code_simp
  have a: "fst (try_body flaky_provider (cleaned_keywords sample_keywords) ''DE'' ''today 12-m''
              ''de-DE'' 5) = Inl (Exception (PyException ''429 Too Many Requests''))"
    unfolding c by code_simp
  have b: "cleaned_keywords sample_keywords \<noteq> []" unfolding c by simp
  from provider_failure_gives_fallback[OF a b]
  obtain r where "fst (get_trend_daten_fuer_keywords flaky_provider sample_keywords ''DE''
      ''today 12-m'' ''de-DE'' 5) = Inr r" "\<not> trends_verfuegbar r"
    "map keyword (ergebnisse r) = surviving_keywords sample_keywords"
    "list_all unavailable_record (ergebnisse r)"
    "hinweis r = hinweis_fehler (PyException ''429 Too Many Requests'')"
    by (elim exE conjE)
  then show ?thesis unfolding s by (intro exI[of _ r] conjI)
qed

text \<open>
  C1 as stated fails: an input keyword that is denylisted, or that changes under
  normalisation, does not appear in the fallback.
\<close>

theorem denylisted_input_keyword_absent_counterexample:
  "fst (try_body down_provider (cleaned_keywords [''Kokain kaufen'', '' seo '']) ''DE''
          ''today 12-m'' ''de-DE'' 5) = Inl (Exception (PyException ''timed out'')) \<and>
   fst (get_trend_daten_fuer_keywords down_provider [''Kokain kaufen'', '' seo ''] ''DE''
          ''today 12-m'' ''de-DE'' 5)
     = Inr \<lparr>trends_verfuegbar = False,
            ergebnisse = [\<lparr>keyword = ''seo'', trend_index = None, suchvolumen = None,
                           verwandte_suchanfragen = []\<rparr>],
            hinweis = hinweis_fehler (PyException ''timed out'')\<rparr> \<and>
   ''Kokain kaufen'' \<notin> set [''seo''] \<and> '' seo '' \<notin> set [''seo'']"
  by code_simp



end
